theory Spec2Isabelle
  imports Complex_Main "HOL-Library.Word" "HOL-Library.AList"
begin

section \<open>The platform: strings, values, JSON\<close>

text \<open>
  The module \<^verbatim>\<open>src/lib/api.ts\<close> runs in a browser. Its own functions are embedded in the
  second section; this section models the parts of the JavaScript platform they call.

  A JavaScript string is a sequence of 16-bit code units. \<open>str\<close> turns an ASCII literal
  into such a sequence.
\<close>

type_synonym jsstring = "16 word list"

definition unit_of :: "char \<Rightarrow> 16 word" where
  "unit_of c = of_nat (of_char c)"

definition str :: "string \<Rightarrow> jsstring" where
  "str s = map unit_of s"

text \<open>
  Decimal text of an integer, as a template literal or \<open>+\<close> produces it for an
  integer-valued number (\<^verbatim>\<open>`user-${Date.now()}`\<close>).
\<close>

fun string_of_nat :: "nat \<Rightarrow> string" where
  "string_of_nat n =
     (if n < 10 then [''0123456789'' ! n]
      else string_of_nat (n div 10) @ [''0123456789'' ! (n mod 10)])"

declare string_of_nat.simps [simp del]

definition string_of_int :: "int \<Rightarrow> string" where
  "string_of_int i =
     (if i < 0 then CHR ''-'' # string_of_nat (nat (- i)) else string_of_nat (nat i))"

text \<open>
  JavaScript values. \<open>JNum q\<close> stands for the double nearest to the rational \<open>q\<close>;
  \<open>JDate t\<close> is a Date object with time value \<open>t\<close> (milliseconds since the epoch);
  \<open>JError name message\<close> is an error object; an object is the list of its own properties
  in insertion order.
\<close>

datatype jsval =
    JUndefined
  | JNull
  | JBool bool
  | JNum rat
  | JStr jsstring
  | JDate int
  | JError jsstring jsstring
  | JArr "jsval list"
  | JObj "(jsstring \<times> jsval) list"

text \<open>
  ToBoolean. A number is falsy when its double is zero, which for the double nearest to
  \<open>q\<close> means that \<open>\<bar>q\<bar>\<close> is at most \<open>1 / 2 ^ 1075\<close> (half the smallest subnormal; the tie
  goes to the even neighbour, zero).
\<close>

definition truthy :: "jsval \<Rightarrow> bool" where
  "truthy v = (case v of
       JUndefined \<Rightarrow> False
     | JNull \<Rightarrow> False
     | JBool b \<Rightarrow> b
     | JNum q \<Rightarrow> 1 / 2 ^ 1075 < \<bar>q\<bar>
     | JStr s \<Rightarrow> s \<noteq> []
     | _ \<Rightarrow> True)"

text \<open>The operator \<^verbatim>\<open>a || b\<close>.\<close>

definition or_else :: "jsval \<Rightarrow> jsval \<Rightarrow> jsval" where
  "or_else a b = (if truthy a then a else b)"

definition TypeError :: jsval where
  "TypeError = JError (str ''TypeError'') (str ''Cannot read properties'')"

definition URIError :: jsval where
  "URIError = JError (str ''URIError'') (str ''URI malformed'')"

definition QuotaExceededError :: jsval where
  "QuotaExceededError = JError (str ''QuotaExceededError'') (str ''The quota has been exceeded.'')"

definition SyntaxError :: jsval where
  "SyntaxError = JError (str ''SyntaxError'') (str ''Unexpected token in JSON'')"

text \<open>
  Property read \<^verbatim>\<open>v.k\<close>, for the keys the module reads (\<^verbatim>\<open>phoneNumber\<close>,
  \<^verbatim>\<open>error\<close>, \<^verbatim>\<open>messages\<close>), none of which is inherited from a prototype: reading from
  \<^verbatim>\<open>null\<close> or \<^verbatim>\<open>undefined\<close> throws a TypeError, an object gives its own property or
  \<^verbatim>\<open>undefined\<close>, every other value gives \<^verbatim>\<open>undefined\<close>.
\<close>

definition get_prop :: "jsval \<Rightarrow> jsstring \<Rightarrow> jsval + jsval" where
  "get_prop v k = (case v of
       JUndefined \<Rightarrow> Inl TypeError
     | JNull \<Rightarrow> Inl TypeError
     | JObj kvs \<Rightarrow> Inr (case map_of kvs k of Some x \<Rightarrow> x | None \<Rightarrow> JUndefined)
     | _ \<Rightarrow> Inr JUndefined)"

subsection \<open>JSON.parse\<close>

text \<open>
  \<^verbatim>\<open>JSON.parse\<close> as a pushdown automaton that reads the text one code unit at a time:
  \<open>step\<close> is the transition, the stack holds the arrays and objects still open, and
  \<open>finish\<close> accepts when exactly one value has been read. A text outside the JSON
  grammar ends in a SyntaxError. A property that occurs twice keeps its first position and
  its last value.
\<close>

definition is_ws :: "16 word \<Rightarrow> bool" where
  "is_ws c = (c = 0x20 \<or> c = 0x09 \<or> c = 0x0A \<or> c = 0x0D)"

definition digit_val :: "16 word \<Rightarrow> nat option" where
  "digit_val c = (if 0x30 \<le> c \<and> c \<le> 0x39 then Some (unat c - 48) else None)"

definition hex_val :: "16 word \<Rightarrow> nat option" where
  "hex_val c =
     (if 0x30 \<le> c \<and> c \<le> 0x39 then Some (unat c - 48)
      else if 0x41 \<le> c \<and> c \<le> 0x46 then Some (unat c - 55)
      else if 0x61 \<le> c \<and> c \<le> 0x66 then Some (unat c - 87)
      else None)"

datatype numphase = NMinus | NZero | NInt | NDot | NFrac | NE | NESign | NExp

datatype frame =
    FArr "jsval list"
  | FObj "(jsstring \<times> jsval) list"
  | FKey "(jsstring \<times> jsval) list" jsstring

datatype lexstate =
    LVal | LValOrEnd | LKeyOrEnd | LKey | LColon | LAfter
  | LDone jsval
  | LStr jsstring | LEsc jsstring | LHex jsstring nat nat
  | LLit jsstring jsval
  | LNum numphase bool nat nat bool nat
  | LFail

type_synonym pstate = "lexstate \<times> frame list"

definition number_value :: "bool \<Rightarrow> nat \<Rightarrow> nat \<Rightarrow> bool \<Rightarrow> nat \<Rightarrow> rat" where
  "number_value neg m f eneg e =
     (let x = (if eneg then - int e else int e) - int f;
          a = (if 0 \<le> x then of_nat m * 10 ^ nat x else of_nat m / 10 ^ nat (- x))
      in if neg then - a else a)"

definition emit :: "jsval \<Rightarrow> frame list \<Rightarrow> pstate" where
  "emit v st = (case st of
       [] \<Rightarrow> (LDone v, [])
     | FArr xs # r \<Rightarrow> (LAfter, FArr (xs @ [v]) # r)
     | FKey kvs k # r \<Rightarrow> (LAfter, FObj (AList.update k v kvs) # r)
     | FObj kvs # r \<Rightarrow> (LFail, st))"

definition end_string :: "jsstring \<Rightarrow> frame list \<Rightarrow> pstate" where
  "end_string s st = (case st of
       FObj kvs # r \<Rightarrow> (LColon, FKey kvs s # r)
     | _ \<Rightarrow> emit (JStr s) st)"

definition start_value :: "16 word \<Rightarrow> frame list \<Rightarrow> pstate" where
  "start_value c st =
     (if c = 0x22 then (LStr [], st)
      else if c = 0x5B then (LValOrEnd, FArr [] # st)
      else if c = 0x7B then (LKeyOrEnd, FObj [] # st)
      else if c = 0x74 then (LLit (str ''rue'') (JBool True), st)
      else if c = 0x66 then (LLit (str ''alse'') (JBool False), st)
      else if c = 0x6E then (LLit (str ''ull'') JNull, st)
      else if c = 0x2D then (LNum NMinus True 0 0 False 0, st)
      else if c = 0x30 then (LNum NZero False 0 0 False 0, st)
      else (case digit_val c of
              Some d \<Rightarrow> (LNum NInt False d 0 False 0, st)
            | None \<Rightarrow> (LFail, st)))"

definition after_value :: "16 word \<Rightarrow> pstate \<Rightarrow> pstate" where
  "after_value c p =
     (if is_ws c then p
      else (case p of
          (LAfter, FArr xs # r) \<Rightarrow>
            if c = 0x2C then (LVal, FArr xs # r)
            else if c = 0x5D then emit (JArr xs) r
            else (LFail, FArr xs # r)
        | (LAfter, FObj kvs # r) \<Rightarrow>
            if c = 0x2C then (LKey, FObj kvs # r)
            else if c = 0x7D then emit (JObj kvs) r
            else (LFail, FObj kvs # r)
        | (l, st) \<Rightarrow> (LFail, st)))"

definition num_end :: "bool \<Rightarrow> nat \<Rightarrow> nat \<Rightarrow> bool \<Rightarrow> nat \<Rightarrow> frame list \<Rightarrow> pstate" where
  "num_end neg m f eneg e st = emit (JNum (number_value neg m f eneg e)) st"

definition num_step ::
  "numphase \<Rightarrow> bool \<Rightarrow> nat \<Rightarrow> nat \<Rightarrow> bool \<Rightarrow> nat \<Rightarrow> frame list \<Rightarrow> 16 word \<Rightarrow> pstate" where
  "num_step ph neg m f eneg e st c =
     (let is_e = (c = 0x65 \<or> c = 0x45); fin = after_value c (num_end neg m f eneg e st) in
      case ph of
        NMinus \<Rightarrow>
          (if c = 0x30 then (LNum NZero neg 0 f eneg e, st)
           else case digit_val c of
                  Some d \<Rightarrow> (LNum NInt neg d f eneg e, st)
                | None \<Rightarrow> (LFail, st))
      | NZero \<Rightarrow>
          (if c = 0x2E then (LNum NDot neg m f eneg e, st)
           else if is_e then (LNum NE neg m f eneg e, st)
           else fin)
      | NInt \<Rightarrow>
          (case digit_val c of
             Some d \<Rightarrow> (LNum NInt neg (m * 10 + d) f eneg e, st)
           | None \<Rightarrow>
               if c = 0x2E then (LNum NDot neg m f eneg e, st)
               else if is_e then (LNum NE neg m f eneg e, st)
               else fin)
      | NDot \<Rightarrow>
          (case digit_val c of
             Some d \<Rightarrow> (LNum NFrac neg (m * 10 + d) (Suc f) eneg e, st)
           | None \<Rightarrow> (LFail, st))
      | NFrac \<Rightarrow>
          (case digit_val c of
             Some d \<Rightarrow> (LNum NFrac neg (m * 10 + d) (Suc f) eneg e, st)
           | None \<Rightarrow> if is_e then (LNum NE neg m f eneg e, st) else fin)
      | NE \<Rightarrow>
          (if c = 0x2B then (LNum NESign neg m f False e, st)
           else if c = 0x2D then (LNum NESign neg m f True e, st)
           else case digit_val c of
                  Some d \<Rightarrow> (LNum NExp neg m f eneg d, st)
                | None \<Rightarrow> (LFail, st))
      | NESign \<Rightarrow>
          (case digit_val c of
             Some d \<Rightarrow> (LNum NExp neg m f eneg d, st)
           | None \<Rightarrow> (LFail, st))
      | NExp \<Rightarrow>
          (case digit_val c of
             Some d \<Rightarrow> (LNum NExp neg m f eneg (e * 10 + d), st)
           | None \<Rightarrow> fin))"

fun step :: "pstate \<Rightarrow> 16 word \<Rightarrow> pstate" where
  "step (LVal, st) c = (if is_ws c then (LVal, st) else start_value c st)"
| "step (LValOrEnd, st) c =
     (if is_ws c then (LValOrEnd, st)
      else if c = 0x5D then (case st of FArr xs # r \<Rightarrow> emit (JArr xs) r | _ \<Rightarrow> (LFail, st))
      else start_value c st)"
| "step (LKeyOrEnd, st) c =
     (if is_ws c then (LKeyOrEnd, st)
      else if c = 0x7D then (case st of FObj kvs # r \<Rightarrow> emit (JObj kvs) r | _ \<Rightarrow> (LFail, st))
      else if c = 0x22 then (LStr [], st)
      else (LFail, st))"
| "step (LKey, st) c =
     (if is_ws c then (LKey, st) else if c = 0x22 then (LStr [], st) else (LFail, st))"
| "step (LColon, st) c =
     (if is_ws c then (LColon, st) else if c = 0x3A then (LVal, st) else (LFail, st))"
| "step (LAfter, st) c = after_value c (LAfter, st)"
| "step (LDone v, st) c = after_value c (LDone v, st)"
| "step (LStr acc, st) c =
     (if c = 0x22 then end_string acc st
      else if c = 0x5C then (LEsc acc, st)
      else if c < 0x20 then (LFail, st)
      else (LStr (acc @ [c]), st))"
| "step (LEsc acc, st) c =
     (if c = 0x22 \<or> c = 0x5C \<or> c = 0x2F then (LStr (acc @ [c]), st)
      else if c = 0x62 then (LStr (acc @ [0x08]), st)
      else if c = 0x66 then (LStr (acc @ [0x0C]), st)
      else if c = 0x6E then (LStr (acc @ [0x0A]), st)
      else if c = 0x72 then (LStr (acc @ [0x0D]), st)
      else if c = 0x74 then (LStr (acc @ [0x09]), st)
      else if c = 0x75 then (LHex acc 0 0, st)
      else (LFail, st))"
| "step (LHex acc k h, st) c =
     (case hex_val c of
        None \<Rightarrow> (LFail, st)
      | Some d \<Rightarrow>
          if k = 3 then (LStr (acc @ [of_nat (h * 16 + d)]), st)
          else (LHex acc (Suc k) (h * 16 + d), st))"
| "step (LLit rest v, st) c =
     (case rest of
        [] \<Rightarrow> (LFail, st)
      | e # es \<Rightarrow>
          if c = e then (if es = [] then emit v st else (LLit es v, st))
          else (LFail, st))"
| "step (LNum ph neg m f eneg e, st) c = num_step ph neg m f eneg e st c"
| "step (LFail, st) c = (LFail, st)"

definition finish :: "pstate \<Rightarrow> jsval + jsval" where
  "finish p = (case p of
       (LDone v, st) \<Rightarrow> Inr v
     | (LNum ph neg m f eneg e, st) \<Rightarrow>
         (if ph = NZero \<or> ph = NInt \<or> ph = NFrac \<or> ph = NExp
          then (case num_end neg m f eneg e st of (LDone v, r) \<Rightarrow> Inr v | _ \<Rightarrow> Inl SyntaxError)
          else Inl SyntaxError)
     | _ \<Rightarrow> Inl SyntaxError)"

definition JSON_parse :: "jsstring \<Rightarrow> jsval + jsval" where
  "JSON_parse text = finish (foldl step (LVal, []) text)"

subsection \<open>JSON.stringify\<close>

definition hexdigit :: "nat \<Rightarrow> 16 word" where
  "hexdigit n = str ''0123456789abcdef'' ! n"

definition UnicodeEscape :: "16 word \<Rightarrow> jsstring" where
  "UnicodeEscape c =
     [0x5C, 0x75, hexdigit (unat c div 4096), hexdigit (unat c div 256 mod 16),
      hexdigit (unat c div 16 mod 16), hexdigit (unat c mod 16)]"

definition is_high :: "16 word \<Rightarrow> bool" where
  "is_high c = (0xD800 \<le> c \<and> c \<le> 0xDBFF)"

definition is_low :: "16 word \<Rightarrow> bool" where
  "is_low c = (0xDC00 \<le> c \<and> c \<le> 0xDFFF)"

text \<open>
  QuoteJSONString: the short escapes, \<^verbatim>\<open>\u00xx\<close> for the other control characters and
  \<^verbatim>\<open>\udxxx\<close> for a surrogate that is not part of a pair.
\<close>

fun esc :: "jsstring \<Rightarrow> jsstring" where
  "esc [] = []"
| "esc (c # cs) =
     (if c = 0x08 then [0x5C, 0x62] @ esc cs
      else if c = 0x09 then [0x5C, 0x74] @ esc cs
      else if c = 0x0A then [0x5C, 0x6E] @ esc cs
      else if c = 0x0C then [0x5C, 0x66] @ esc cs
      else if c = 0x0D then [0x5C, 0x72] @ esc cs
      else if c = 0x22 then [0x5C, 0x22] @ esc cs
      else if c = 0x5C then [0x5C, 0x5C] @ esc cs
      else if c < 0x20 then UnicodeEscape c @ esc cs
      else if is_high c then
        (case cs of
           [] \<Rightarrow> UnicodeEscape c
         | d # ds \<Rightarrow> if is_low d then c # d # esc ds else UnicodeEscape c @ esc cs)
      else if is_low c then UnicodeEscape c @ esc cs
      else c # esc cs)"

definition QuoteJSONString :: "jsstring \<Rightarrow> jsstring" where
  "QuoteJSONString s = 0x22 # esc s @ [0x22]"

fun join_comma :: "jsstring list \<Rightarrow> jsstring" where
  "join_comma [] = []"
| "join_comma [x] = x"
| "join_comma (x # y # ys) = x @ 0x2C # join_comma (y # ys)"

text \<open>A number whose double is finite: below the midpoint of the largest double and \<open>2 ^ 1024\<close>.\<close>

definition number_is_finite :: "rat \<Rightarrow> bool" where
  "number_is_finite q = (\<bar>q\<bar> < 2 ^ 1024 - 2 ^ 970)"
subsection \<open>The browser environment\<close>

text \<open>
  \<open>localStorage\<close> maps keys to strings; it is taken to be available, so that reading and
  removing never throw. A request is what \<^verbatim>\<open>fetch\<close> is called with; a response has a
  status and a body whose reading can itself fail. \<open>ok\<close> is the Fetch standard's: the
  status is in the range 200 to 299.
\<close>

type_synonym storage = "jsstring \<rightharpoonup> jsstring"

record request =
  url :: jsstring
  http_method :: jsstring
  headers :: "(jsstring \<times> jsval) list"

record response =
  status :: nat
  body :: "jsval + jsstring"

definition ok :: "response \<Rightarrow> bool" where
  "ok r = (200 \<le> status r \<and> status r \<le> 299)"

text \<open>
  What the module takes from its surroundings, and cannot decide itself:
  \<^item> \<open>VITE_API_BASE_URL\<close>: the build-time setting \<^verbatim>\<open>import.meta.env.VITE_API_BASE_URL\<close>;
  \<^item> \<open>has_room s k v\<close>: whether the browser accepts writing \<open>v\<close> under \<open>k\<close> into the
    storage \<open>s\<close> (otherwise \<^verbatim>\<open>setItem\<close> throws a QuotaExceededError);
  \<^item> \<open>clock n\<close>: the time, in milliseconds since the epoch, that the \<open>n\<close>-th reading of the
    clock (\<^verbatim>\<open>Date.now()\<close>, \<^verbatim>\<open>new Date()\<close>) during a call returns;
  \<^item> \<open>fetch\<close>: the outcome of a request, a thrown value or a response;
  \<^item> \<open>Number_toString\<close>, \<open>Date_toISOString\<close>, \<open>Date_toString\<close>: the text forms of a
    double and of a date, which no property below depends on.
\<close>

record env =
  VITE_API_BASE_URL :: "jsstring option"
  has_room :: "storage \<Rightarrow> jsstring \<Rightarrow> jsstring \<Rightarrow> bool"
  clock :: "nat \<Rightarrow> int"
  fetch :: "request \<Rightarrow> jsval + response"
  Number_toString :: "rat \<Rightarrow> jsstring"
  Date_toISOString :: "int \<Rightarrow> jsstring"
  Date_toString :: "int \<Rightarrow> jsstring"

definition getItem :: "storage \<Rightarrow> jsstring \<Rightarrow> jsstring option" where
  "getItem s k = s k"

definition setItem :: "env \<Rightarrow> storage \<Rightarrow> jsstring \<Rightarrow> jsstring \<Rightarrow> jsval + storage" where
  "setItem e s k v = (if has_room e s k v then Inr (s(k \<mapsto> v)) else Inl QuotaExceededError)"

definition removeItem :: "storage \<Rightarrow> jsstring \<Rightarrow> storage" where
  "removeItem s k = s(k := None)"

text \<open>
  A value read from storage is a string or \<^verbatim>\<open>null\<close> (\<open>None\<close>): it is truthy when it is a
  non-empty string, and \<open>item_text\<close> is its text inside a template literal.
\<close>

definition truthy_item :: "jsstring option \<Rightarrow> bool" where
  "truthy_item x = (case x of None \<Rightarrow> False | Some t \<Rightarrow> t \<noteq> [])"

definition item_text :: "jsstring option \<Rightarrow> jsstring" where
  "item_text x = (case x of None \<Rightarrow> str ''null'' | Some t \<Rightarrow> t)"

definition response_text :: "response \<Rightarrow> jsval + jsstring" where
  "response_text r = body r"

definition response_json :: "response \<Rightarrow> jsval + jsval" where
  "response_json r = (case body r of Inl x \<Rightarrow> Inl x | Inr t \<Rightarrow> JSON_parse t)"

text \<open>
  SerializeJSONProperty: \<open>None\<close> is \<^verbatim>\<open>undefined\<close>. A property whose value is
  \<^verbatim>\<open>undefined\<close> is left out of an object and is \<^verbatim>\<open>null\<close> in an array; a date is the
  quoted text of \<^verbatim>\<open>toISOString\<close>; an error object has no enumerable property.
\<close>

fun ser :: "env \<Rightarrow> jsval \<Rightarrow> jsstring option"
  and ser_elems :: "env \<Rightarrow> jsval list \<Rightarrow> jsstring list"
  and ser_props :: "env \<Rightarrow> (jsstring \<times> jsval) list \<Rightarrow> jsstring list" where
  "ser e JUndefined = None"
| "ser e JNull = Some (str ''null'')"
| "ser e (JBool b) = Some (str (if b then ''true'' else ''false''))"
| "ser e (JNum q) = Some (if number_is_finite q then Number_toString e q else str ''null'')"
| "ser e (JStr s) = Some (QuoteJSONString s)"
| "ser e (JDate t) = Some (QuoteJSONString (Date_toISOString e t))"
| "ser e (JError n m) = Some (str ''{}'')"
| "ser e (JArr xs) = Some (0x5B # join_comma (ser_elems e xs) @ [0x5D])"
| "ser e (JObj kvs) = Some (0x7B # join_comma (ser_props e kvs) @ [0x7D])"
| "ser_elems e [] = []"
| "ser_elems e (x # xs) =
     (case ser e x of None \<Rightarrow> str ''null'' | Some t \<Rightarrow> t) # ser_elems e xs"
| "ser_props e [] = []"
| "ser_props e (kv # kvs) =
     (case ser e (snd kv) of
        None \<Rightarrow> ser_props e kvs
      | Some t \<Rightarrow> (QuoteJSONString (fst kv) @ 0x3A # t) # ser_props e kvs)"

definition JSON_stringify :: "env \<Rightarrow> jsval \<Rightarrow> jsstring option" where
  "JSON_stringify e v = ser e v"

text \<open>
  ToString on the values the module interpolates. An array joins its elements with
  commas, \<^verbatim>\<open>null\<close> and \<^verbatim>\<open>undefined\<close> elements being empty; a plain object is
  \<^verbatim>\<open>[object Object]\<close> unless it has an own property \<^verbatim>\<open>toString\<close>, which (coming from
  JSON) is not callable and makes the conversion throw a TypeError.
\<close>

fun ToString :: "env \<Rightarrow> jsval \<Rightarrow> jsval + jsstring"
  and ToString_elems :: "env \<Rightarrow> jsval list \<Rightarrow> jsval + jsstring" where
  "ToString e JUndefined = Inr (str ''undefined'')"
| "ToString e JNull = Inr (str ''null'')"
| "ToString e (JBool b) = Inr (str (if b then ''true'' else ''false''))"
| "ToString e (JNum q) = Inr (Number_toString e q)"
| "ToString e (JStr s) = Inr s"
| "ToString e (JDate t) = Inr (Date_toString e t)"
| "ToString e (JError n m) =
     Inr (if n = [] then m else if m = [] then n else n @ str '': '' @ m)"
| "ToString e (JArr xs) = ToString_elems e xs"
| "ToString e (JObj kvs) =
     (if map_of kvs (str ''toString'') \<noteq> None then Inl TypeError
      else Inr (str ''[object Object]''))"
| "ToString_elems e [] = Inr []"
| "ToString_elems e (x # xs) =
     (case (if x = JNull \<or> x = JUndefined then Inr [] else ToString e x) of
        Inl err \<Rightarrow> Inl err
      | Inr t \<Rightarrow>
          if xs = [] then Inr t
          else (case ToString_elems e xs of
                  Inl err \<Rightarrow> Inl err
                | Inr r \<Rightarrow> Inr (t @ 0x2C # r)))"

text \<open>
  \<^verbatim>\<open>encodeURIComponent\<close>: the unreserved characters stay, every other code point is
  the percent-encoding of its UTF-8 bytes, and a surrogate outside a pair throws a
  URIError.
\<close>

definition uri_unreserved :: "16 word \<Rightarrow> bool" where
  "uri_unreserved c =
     ((0x41 \<le> c \<and> c \<le> 0x5A) \<or> (0x61 \<le> c \<and> c \<le> 0x7A) \<or> (0x30 \<le> c \<and> c \<le> 0x39)
      \<or> c \<in> set (str ''-_.!~*'' @ [0x27] @ str ''()''))"

definition HEXDIGIT :: "nat \<Rightarrow> 16 word" where
  "HEXDIGIT n = str ''0123456789ABCDEF'' ! n"

definition pct :: "nat \<Rightarrow> jsstring" where
  "pct b = [0x25, HEXDIGIT (b div 16), HEXDIGIT (b mod 16)]"

definition utf8 :: "nat \<Rightarrow> nat list" where
  "utf8 cp =
     (if cp < 0x80 then [cp]
      else if cp < 0x800 then [0xC0 + cp div 64, 0x80 + cp mod 64]
      else if cp < 0x10000 then [0xE0 + cp div 4096, 0x80 + cp div 64 mod 64, 0x80 + cp mod 64]
      else [0xF0 + cp div 262144, 0x80 + cp div 4096 mod 64, 0x80 + cp div 64 mod 64,
            0x80 + cp mod 64])"

fun encode :: "jsstring \<Rightarrow> jsval + jsstring" where
  "encode [] = Inr []"
| "encode (c # cs) =
     (if uri_unreserved c then
        (case encode cs of Inl err \<Rightarrow> Inl err | Inr r \<Rightarrow> Inr (c # r))
      else if is_low c then Inl URIError
      else if is_high c then
        (case cs of
           [] \<Rightarrow> Inl URIError
         | d # ds \<Rightarrow>
             if is_low d then
               (case encode ds of
                  Inl err \<Rightarrow> Inl err
                | Inr r \<Rightarrow>
                    Inr (concat (map pct
                      (utf8 (0x10000 + (unat c - 0xD800) * 1024 + (unat d - 0xDC00)))) @ r))
             else Inl URIError)
      else
        (case encode cs of
           Inl err \<Rightarrow> Inl err
         | Inr r \<Rightarrow> Inr (concat (map pct (utf8 (unat c))) @ r)))"

definition encodeURIComponent :: "env \<Rightarrow> jsval \<Rightarrow> jsval + jsstring" where
  "encodeURIComponent e v = (case ToString e v of Inl err \<Rightarrow> Inl err | Inr t \<Rightarrow> encode t)"

section \<open>The module \<^verbatim>\<open>src/lib/api.ts\<close>\<close>

text \<open>
  Every function that can throw returns a sum: \<open>Inl x\<close> is the thrown value \<open>x\<close> (for an
  \<^verbatim>\<open>async\<close> function, the rejection of its promise), \<open>Inr v\<close> the returned value. A function
  that calls \<^verbatim>\<open>fetch\<close> also returns the list of the requests it issued, and one that writes
  to \<open>localStorage\<close> returns the storage it leaves. Calls to \<^verbatim>\<open>console\<close> have no effect on
  what is returned and are left out.
\<close>

definition API_BASE_URL :: "env \<Rightarrow> jsstring" where
  "API_BASE_URL e =
     (if truthy_item (VITE_API_BASE_URL e) then item_text (VITE_API_BASE_URL e)
      else str ''http://localhost:3000/api'')"

definition getToken :: "storage \<Rightarrow> jsstring option" where
  "getToken s = getItem s (str ''healthBuddieToken'')"

text \<open>The body of the \<^verbatim>\<open>try\<close> block of \<^verbatim>\<open>getPhoneNumber\<close>, then the function with its \<^verbatim>\<open>catch\<close>.\<close>

definition getPhoneNumber_try :: "storage \<Rightarrow> jsval + jsval" where
  "getPhoneNumber_try s =
     (let userJson = getItem s (str ''healthBuddieUser'') in
      if \<not> truthy_item userJson then Inr JNull
      else (case JSON_parse (item_text userJson) of
              Inl err \<Rightarrow> Inl err
            | Inr user \<Rightarrow>
                (case get_prop user (str ''phoneNumber'') of
                   Inl err \<Rightarrow> Inl err
                 | Inr p \<Rightarrow> Inr (or_else p JNull))))"

definition getPhoneNumber :: "storage \<Rightarrow> jsval + jsval" where
  "getPhoneNumber s =
     (case getPhoneNumber_try s of Inl error \<Rightarrow> Inr JNull | Inr v \<Rightarrow> Inr v)"

definition getHeaders :: "storage \<Rightarrow> jsval + (jsstring \<times> jsval) list" where
  "getHeaders s =
     (let token = getToken s in
      case getPhoneNumber s of
        Inl err \<Rightarrow> Inl err
      | Inr phoneNumber \<Rightarrow>
          (let h0 = [(str ''Content-Type'', JStr (str ''application/json''))];
               h1 = (if truthy phoneNumber
                     then AList.update (str ''X-Phone-Number'') phoneNumber h0 else h0);
               h2 = (if truthy_item token
                     then AList.update (str ''Authorization'')
                            (JStr (str ''Bearer '' @ item_text token)) h1
                     else h1)
           in Inr h2))"

definition new_user :: "env \<Rightarrow> jsstring \<Rightarrow> jsval" where
  "new_user e phoneNumber =
     JObj [(str ''id'', JStr (str ''user-'' @ str (string_of_int (clock e 0)))),
           (str ''phoneNumber'', JStr phoneNumber),
           (str ''createdAt'', JDate (clock e 1)),
           (str ''lastActive'', JDate (clock e 2)),
           (str ''verified'', JBool True)]"

text \<open>
  \<^verbatim>\<open>login\<close>: the \<^verbatim>\<open>catch\<close> rethrows, so a failed write ends the call with the storage as
  the writes before it left it. \<^verbatim>\<open>setItem\<close> stores the text of its argument, which for
  \<^verbatim>\<open>undefined\<close> is \<^verbatim>\<open>"undefined"\<close>.
\<close>

definition login :: "env \<Rightarrow> jsstring \<Rightarrow> storage \<Rightarrow> (jsval + jsval) \<times> storage" where
  "login e phoneNumber s =
     (let user = new_user e phoneNumber;
          userText = (case JSON_stringify e user of None \<Rightarrow> str ''undefined'' | Some t \<Rightarrow> t)
      in case setItem e s (str ''healthBuddieUser'') userText of
           Inl error \<Rightarrow> (Inl error, s)
         | Inr s1 \<Rightarrow>
             (case setItem e s1 (str ''healthBuddieToken'')
                     (str ''demo-token-'' @ str (string_of_int (clock e 3))) of
                Inl error \<Rightarrow> (Inl error, s1)
              | Inr s2 \<Rightarrow>
                  (Inr (JObj [(str ''success'', JBool True), (str ''user'', user)]), s2)))"

definition logout :: "storage \<Rightarrow> storage" where
  "logout s = removeItem (removeItem s (str ''healthBuddieToken'')) (str ''healthBuddieUser'')"

text \<open>\<^verbatim>\<open>!!getToken() && !!getPhoneNumber()\<close>: the second operand is evaluated only if the first is true.\<close>

definition isAuthenticated :: "storage \<Rightarrow> jsval + bool" where
  "isAuthenticated s =
     (if truthy_item (getToken s)
      then (case getPhoneNumber s of Inl err \<Rightarrow> Inl err | Inr p \<Rightarrow> Inr (truthy p))
      else Inr False)"

subsection \<open>Mock data generators\<close>

text \<open>
  Each generator reads the clock once; \<open>today\<close> is that reading. Times are unbounded
  integers: the range of \<^verbatim>\<open>Date\<close>, some 270000 years either side of 1970, is not modelled.
\<close>

definition day_ms :: int where
  "day_ms = 24 * 60 * 60 * 1000"

definition getMockExerciseLogs :: "int \<Rightarrow> jsval" where
  "getMockExerciseLogs today =
     JArr [
       JObj [(str ''id'', JStr (str ''ex1'')),
             (str ''date'', JDate (today - 1 * day_ms)),
             (str ''duration'', JNum 30),
             (str ''type'', JStr (str ''running'')),
             (str ''distance'', JStr (str ''3 miles''))],
       JObj [(str ''id'', JStr (str ''ex2'')),
             (str ''date'', JDate (today - 2 * day_ms)),
             (str ''duration'', JNum 45),
             (str ''type'', JStr (str ''cycling'')),
             (str ''distance'', JStr (str ''10 miles''))],
       JObj [(str ''id'', JStr (str ''ex3'')),
             (str ''date'', JDate (today - 4 * day_ms)),
             (str ''duration'', JNum 60),
             (str ''type'', JStr (str ''yoga'')),
             (str ''distance'', JStr (str ''''))]]"

definition getMockFoodLogs :: "int \<Rightarrow> jsval" where
  "getMockFoodLogs today =
     JArr [
       JObj [(str ''id'', JStr (str ''food1'')),
             (str ''date'', JDate (today - 1 * day_ms)),
             (str ''foodItems'', JStr (str ''Salad with grilled chicken''))],
       JObj [(str ''id'', JStr (str ''food2'')),
             (str ''date'', JDate (today - 2 * day_ms)),
             (str ''foodItems'', JStr (str ''Oatmeal with berries and honey''))],
       JObj [(str ''id'', JStr (str ''food3'')),
             (str ''date'', JDate (today - 3 * day_ms)),
             (str ''foodItems'', JStr (str ''Pasta with tomato sauce''))]]"

definition getMockMessages :: "int \<Rightarrow> jsval" where
  "getMockMessages today =
     JArr [
       JObj [(str ''id'', JStr (str ''msg1'')),
             (str ''content'', JStr (str ''I ran for 30 minutes today'')),
             (str ''timestamp'', JDate (today - 1 * day_ms)),
             (str ''type'', JStr (str ''incoming'')),
             (str ''channel'', JStr (str ''whatsapp'')),
             (str ''processed'', JBool True),
             (str ''category'', JStr (str ''exercise'')),
             (str ''processed_data'',
                JObj [(str ''exercise'',
                   JObj [(str ''duration'', JNum 30),
                         (str ''type'', JStr (str ''running'')),
                         (str ''distance'', JStr (str ''3 miles''))])])],
       JObj [(str ''id'', JStr (str ''msg2'')),
             (str ''content'', JStr (str ''Had a salad with grilled chicken for lunch'')),
             (str ''timestamp'', JDate (today - 2 * day_ms)),
             (str ''type'', JStr (str ''incoming'')),
             (str ''channel'', JStr (str ''whatsapp'')),
             (str ''processed'', JBool True),
             (str ''category'', JStr (str ''food'')),
             (str ''processed_data'',
                JObj [(str ''food'',
                   JObj [(str ''description'', JStr (str ''Salad with grilled chicken''))])])],
       JObj [(str ''id'', JStr (str ''msg3'')),
             (str ''content'', JStr (str ''status'')),
             (str ''timestamp'', JDate (today - 3 * day_ms)),
             (str ''type'', JStr (str ''incoming'')),
             (str ''channel'', JStr (str ''whatsapp'')),
             (str ''processed'', JBool True)]]"

subsection \<open>Requests\<close>

text \<open>
  The fallback of \<^verbatim>\<open>getHealthData\<close>. The two generators are the only readers of the clock
  in a call, so they get its first and second reading.
\<close>

definition mock_health_data :: "env \<Rightarrow> jsval" where
  "mock_health_data e =
     JObj [(str ''success'', JBool True),
           (str ''data'',
              JObj [(str ''exerciseLogs'', getMockExerciseLogs (clock e 0)),
                    (str ''foodLogs'', getMockFoodLogs (clock e 1))])]"

text \<open>
  \<^verbatim>\<open>getHealthData(days)\<close>, for an integer \<open>days\<close>: the \<^verbatim>\<open>try\<close> block, then the function
  with its \<^verbatim>\<open>catch\<close>.
\<close>

definition getHealthData_try ::
  "env \<Rightarrow> int \<Rightarrow> storage \<Rightarrow> (jsval + jsval) \<times> request list" where
  "getHealthData_try e days s =
     (case getPhoneNumber s of
        Inl err \<Rightarrow> (Inl err, [])
      | Inr phoneNumber \<Rightarrow>
          if \<not> truthy phoneNumber then (Inr (mock_health_data e), [])
          else
            (case encodeURIComponent e phoneNumber of
               Inl err \<Rightarrow> (Inl err, [])
             | Inr q \<Rightarrow>
                 (case getHeaders s of
                    Inl err \<Rightarrow> (Inl err, [])
                  | Inr hs \<Rightarrow>
                      (let req = \<lparr>url = API_BASE_URL e @ str ''/health-data?days=''
                                         @ str (string_of_int days) @ str ''&phoneNumber='' @ q,
                                       http_method = str ''GET'', headers = hs\<rparr>
                       in case fetch e req of
                            Inl err \<Rightarrow> (Inl err, [req])
                          | Inr response \<Rightarrow>
                              if \<not> ok response then
                                (case response_text response of
                                   Inl err \<Rightarrow> (Inl err, [req])
                                 | Inr errorText \<Rightarrow>
                                     (Inl (JError (str ''Error'')
                                        (if errorText \<noteq> [] then errorText
                                         else str ''Failed to get health data'')), [req]))
                              else (response_json response, [req])))))"

definition getHealthData ::
  "env \<Rightarrow> int \<Rightarrow> storage \<Rightarrow> (jsval + jsval) \<times> request list" where
  "getHealthData e days s =
     (case getHealthData_try e days s of
        (Inl error, reqs) \<Rightarrow> (Inr (mock_health_data e), reqs)
      | (Inr v, reqs) \<Rightarrow> (Inr v, reqs))"

definition failure :: "jsval \<Rightarrow> jsval" where
  "failure err = JObj [(str ''success'', JBool False), (str ''error'', err)]"

text \<open>The request of \<^verbatim>\<open>getMessages\<close> for the encoded identity \<open>q\<close>: its headers are built
  in place, from the plain key \<^verbatim>\<open>token\<close>.\<close>

definition messages_request :: "env \<Rightarrow> storage \<Rightarrow> jsstring \<Rightarrow> request" where
  "messages_request e s q =
     \<lparr>url = API_BASE_URL e @ str ''/api/messages?phoneNumber='' @ q,
      http_method = str ''GET'',
      headers =
        (str ''Content-Type'', JStr (str ''application/json'')) #
        (if truthy_item (getItem s (str ''token''))
         then [(str ''Authorization'',
                JStr (str ''Bearer '' @ item_text (getItem s (str ''token''))))]
         else [])\<rparr>"

definition getMessages_try :: "env \<Rightarrow> storage \<Rightarrow> (jsval + jsval) \<times> request list" where
  "getMessages_try e s =
     (let phoneNumber = getItem s (str ''phoneNumber'') in
      if \<not> truthy_item phoneNumber
      then (Inr (failure (JStr (str ''No phone number found''))), [])
      else
        (case encode (item_text phoneNumber) of
           Inl err \<Rightarrow> (Inl err, [])
         | Inr q \<Rightarrow>
             (let req = messages_request e s q
              in case fetch e req of
                   Inl err \<Rightarrow> (Inl err, [req])
                 | Inr response \<Rightarrow>
                     if \<not> ok response then
                       (case response_json response of
                          Inl err \<Rightarrow> (Inl err, [req])
                        | Inr errorData \<Rightarrow>
                            (case get_prop errorData (str ''error'') of
                               Inl err \<Rightarrow> (Inl err, [req])
                             | Inr msg \<Rightarrow>
                                 (Inr (failure (or_else msg (JStr (str ''Failed to get messages'')))),
                                  [req])))
                     else
                       (case response_json response of
                          Inl err \<Rightarrow> (Inl err, [req])
                        | Inr data \<Rightarrow>
                            (case get_prop data (str ''messages'') of
                               Inl err \<Rightarrow> (Inl err, [req])
                             | Inr messages \<Rightarrow>
                                 (Inr (JObj [(str ''success'', JBool True),
                                             (str ''data'', messages)]), [req]))))))"

definition getMessages :: "env \<Rightarrow> storage \<Rightarrow> (jsval + jsval) \<times> request list" where
  "getMessages e s =
     (case getMessages_try e s of
        (Inl error, reqs) \<Rightarrow> (Inr (failure (JStr (str ''Failed to get messages''))), reqs)
      | (Inr v, reqs) \<Rightarrow> (Inr v, reqs))"

definition testApiConnection_try ::
  "env \<Rightarrow> storage \<Rightarrow> (jsval + jsval) \<times> request list" where
  "testApiConnection_try e s =
     (case getPhoneNumber s of
        Inl err \<Rightarrow> (Inl err, [])
      | Inr phoneNumber \<Rightarrow>
          if \<not> truthy phoneNumber
          then (Inr (failure (JError (str ''Error'')
                   (str ''No phone number available. Please log in again.''))), [])
          else
            (case getHeaders s of
               Inl err \<Rightarrow> (Inl err, [])
             | Inr hs \<Rightarrow>
                 (case encodeURIComponent e phoneNumber of
                    Inl err \<Rightarrow> (Inl err, [])
                  | Inr q \<Rightarrow>
                      (let req = \<lparr>url = API_BASE_URL e @ str ''/messages?phoneNumber='' @ q,
                                       http_method = str ''GET'', headers = hs\<rparr>
                       in case fetch e req of
                            Inl err \<Rightarrow> (Inl err, [req])
                          | Inr response \<Rightarrow>
                              if \<not> ok response then
                                (let errorData =
                                   (case response_json response of
                                      Inl err \<Rightarrow>
                                        JObj [(str ''error'',
                                               JStr (str ''HTTP error! status: ''
                                                     @ str (string_of_nat (status response))))]
                                    | Inr d \<Rightarrow> d)
                                 in case get_prop errorData (str ''error'') of
                                      Inl err \<Rightarrow> (Inl err, [req])
                                    | Inr msg \<Rightarrow>
                                        (case ToString e
                                                (or_else msg (JStr (str ''API is not reachable''))) of
                                           Inl err \<Rightarrow> (Inl err, [req])
                                         | Inr m \<Rightarrow> (Inl (JError (str ''Error'') m), [req])))
                              else
                                (Inr (JObj [(str ''success'', JBool True),
                                            (str ''message'', JStr (str ''API is reachable''))]),
                                 [req])))))"

definition testApiConnection :: "env \<Rightarrow> storage \<Rightarrow> (jsval + jsval) \<times> request list" where
  "testApiConnection e s =
     (case testApiConnection_try e s of
        (Inl error, reqs) \<Rightarrow> (Inr (failure error), reqs)
      | (Inr v, reqs) \<Rightarrow> (Inr v, reqs))"

subsection \<open>Reading results, and an example environment\<close>

text \<open>The elements of an array, a property of an object, and the times of the dates stored
  under a key in the elements of an array.\<close>

definition elements :: "jsval \<Rightarrow> jsval list" where
  "elements v = (case v of JArr xs \<Rightarrow> xs | _ \<Rightarrow> [])"

definition field :: "jsstring \<Rightarrow> jsval \<Rightarrow> jsval" where
  "field k v = (case v of
       JObj kvs \<Rightarrow> (case map_of kvs k of Some x \<Rightarrow> x | None \<Rightarrow> JUndefined)
     | _ \<Rightarrow> JUndefined)"

fun times_of :: "jsval list \<Rightarrow> int list" where
  "times_of [] = []"
| "times_of (JDate t # vs) = t # times_of vs"
| "times_of (v # vs) = times_of vs"

definition dates :: "jsstring \<Rightarrow> jsval \<Rightarrow> int list" where
  "dates k v = times_of (map (field k) (elements v))"

text \<open>
  A browser at 2025-11-03T11:00:00Z with room in its storage and no configured base URL,
  whose network answers as \<open>net\<close> says.
\<close>

definition browser :: "(request \<Rightarrow> jsval + response) \<Rightarrow> env" where
  "browser net =
     \<lparr>VITE_API_BASE_URL = None,
      has_room = (\<lambda>s k v. True),
      clock = (\<lambda>n. 1762167600000),
      fetch = net,
      Number_toString = (\<lambda>q. str (string_of_int \<lfloor>q\<rfloor>)),
      Date_toISOString = (\<lambda>t. str ''2025-11-03T11:00:00.000Z''),
      Date_toString = (\<lambda>t. str ''Mon Nov 03 2025 11:00:00 GMT+0000'')\<rparr>"

text \<open>A network that answers every request with the given status and body.\<close>

definition answering :: "nat \<Rightarrow> jsstring \<Rightarrow> request \<Rightarrow> jsval + response" where
  "answering code text req = Inr \<lparr>status = code, body = Inr text\<rparr>"

text \<open>
  The text that \<^verbatim>\<open>login\<close> stores for the profile, written out: it is what
  \<open>JSON_stringify\<close> gives for \<open>new_user\<close>, with each date as the quoted text of
  \<^verbatim>\<open>toISOString\<close>.
\<close>

definition user_text :: "env \<Rightarrow> jsstring \<Rightarrow> jsstring" where
  "user_text e P =
     0x7B #
       (QuoteJSONString (str ''id'') @ 0x3A #
          QuoteJSONString (str ''user-'' @ str (string_of_int (clock e 0)))) @ 0x2C #
       (QuoteJSONString (str ''phoneNumber'') @ 0x3A # QuoteJSONString P) @ 0x2C #
       (QuoteJSONString (str ''createdAt'') @ 0x3A #
          QuoteJSONString (Date_toISOString e (clock e 1))) @ 0x2C #
       (QuoteJSONString (str ''lastActive'') @ 0x3A #
          QuoteJSONString (Date_toISOString e (clock e 2))) @ 0x2C #
       (QuoteJSONString (str ''verified'') @ 0x3A # str ''true'') @ [0x7D]"

section \<open>Properties\<close>

subsection \<open>Strings\<close>

lemma unit_of_inj: "unit_of a = unit_of b \<longleftrightarrow> a = b"
proof -
  have "(of_char a :: nat) < 2 ^ 16" "(of_char b :: nat) < 2 ^ 16"
    using less_trans[OF nat_of_char_less_256[of a]] less_trans[OF nat_of_char_less_256[of b]]
    by simp_all
  hence "take_bit 16 (of_char a :: nat) = of_char a" "take_bit 16 (of_char b :: nat) = of_char b"
    by (simp_all only: take_bit_nat_eq_self)
  thus ?thesis
    unfolding unit_of_def by (auto simp: word_of_nat_eq_iff)
qed

lemma str_inj [simp]: "str a = str b \<longleftrightarrow> a = b"
  unfolding str_def
  by (rule inj_map_eq_map) (auto intro!: injI simp: unit_of_inj)

lemma str_Nil [simp]: "str [] = []"
  by (simp add: str_def)

lemma str_eq_Nil [simp]: "str a = [] \<longleftrightarrow> a = []"
  by (simp add: str_def)

lemma str_append: "str (a @ b) = str a @ str b"
  by (simp add: str_def)

lemmas parse_defs = JSON_parse_def finish_def num_end_def num_step_def after_value_def
  start_value_def end_string_def emit_def number_value_def is_ws_def digit_val_def hex_val_def
  str_def unit_of_def SyntaxError_def

lemmas storage_defs = getItem_def setItem_def removeItem_def truthy_item_def item_text_def

subsection \<open>Session store\<close>

lemma getPhoneNumber_total: "\<exists>v. getPhoneNumber s = Inr v"
  by (simp add: getPhoneNumber_def split: sum.split)

lemma getPhoneNumber_absent:
  "getItem s (str ''healthBuddieUser'') = None \<Longrightarrow> getPhoneNumber s = Inr JNull"
  by (simp add: getPhoneNumber_def getPhoneNumber_try_def truthy_item_def)

lemma login_rethrows:
  "\<not> has_room e s (str ''healthBuddieUser'') (user_text e P)
   \<Longrightarrow> login e P s = (Inl QuotaExceededError, s)"
  by (simp add: login_def setItem_def JSON_stringify_def new_user_def user_text_def)

text \<open>
  C8. After \<^verbatim>\<open>logout()\<close>, whatever the storage was, \<^verbatim>\<open>isAuthenticated()\<close> returns false.
  \<^verbatim>\<open>logout\<close> is idempotent: a second \<^verbatim>\<open>logout\<close> leaves the storage as the first left it,
  and where neither the token nor the profile is stored it changes nothing.
\<close>

theorem logout_idempotent:
  "isAuthenticated (logout s) = Inr False
   \<and> logout (logout s) = logout s
   \<and> (getItem s (str ''healthBuddieToken'') = None \<and> getItem s (str ''healthBuddieUser'') = None
        \<longrightarrow> logout s = s)"
proof (intro conjI impI)
  show "isAuthenticated (logout s) = Inr False"
    by (simp add: isAuthenticated_def getToken_def logout_def storage_defs)
  show "logout (logout s) = logout s"
    by (simp add: logout_def removeItem_def)
next
  assume "getItem s (str ''healthBuddieToken'') = None \<and> getItem s (str ''healthBuddieUser'') = None"
  then show "logout s = s"
    by (auto simp: logout_def removeItem_def getItem_def fun_eq_iff)
qed

theorem logout_idempotent_witness:
  \<open>getItem [str ''phoneNumber'' \<mapsto> str ''15551234567''] (str ''healthBuddieToken'') = None
   \<and> getItem [str ''phoneNumber'' \<mapsto> str ''15551234567''] (str ''healthBuddieUser'') = None
   \<and> logout [str ''phoneNumber'' \<mapsto> str ''15551234567''] = [str ''phoneNumber'' \<mapsto> str ''15551234567'']
   \<and> isAuthenticated (logout [str ''healthBuddieToken'' \<mapsto> str ''demo-token-1762167600000'',
        str ''healthBuddieUser'' \<mapsto> str ''{"phoneNumber":"15551234567"}'']) = Inr False\<close>
  using logout_idempotent [of "[str ''phoneNumber'' \<mapsto> str ''15551234567'']"]
    logout_idempotent [of "[str ''healthBuddieToken'' \<mapsto> str ''demo-token-1762167600000'',
        str ''healthBuddieUser'' \<mapsto> str ''{\"phoneNumber\":\"15551234567\"}'']"]
  by (simp add: getItem_def)

text \<open>
  C9. Whatever is stored under the user-profile key, \<^verbatim>\<open>getPhoneNumber\<close> returns a value
  and throws nothing: whenever its \<^verbatim>\<open>try\<close> block throws, and in particular when the stored
  text is not valid JSON, it returns \<^verbatim>\<open>null\<close>. \<^verbatim>\<open>isAuthenticated()\<close> therefore returns a
  boolean, and false on a malformed profile.
\<close>

theorem getPhoneNumber_never_throws:
  "(\<exists>v. getPhoneNumber s = Inr v)
   \<and> (\<forall>err. getPhoneNumber_try s = Inl err \<longrightarrow> getPhoneNumber s = Inr JNull)
   \<and> (\<forall>stored err. getItem s (str ''healthBuddieUser'') = Some stored \<and> JSON_parse stored = Inl err
         \<longrightarrow> getPhoneNumber s = Inr JNull \<and> isAuthenticated s = Inr False)
   \<and> (\<exists>b. isAuthenticated s = Inr b)"
proof (intro conjI allI impI)
  show "\<exists>v. getPhoneNumber s = Inr v"
    by (rule getPhoneNumber_total)
  show "\<exists>b. isAuthenticated s = Inr b"
    using getPhoneNumber_total[of s] by (auto simp: isAuthenticated_def)
next
  fix err
  assume "getPhoneNumber_try s = Inl err"
  then show "getPhoneNumber s = Inr JNull"
    by (simp add: getPhoneNumber_def)
next
  fix stored err
  assume a: "getItem s (str ''healthBuddieUser'') = Some stored \<and> JSON_parse stored = Inl err"
  then show "getPhoneNumber s = Inr JNull"
    by (simp add: getPhoneNumber_def getPhoneNumber_try_def truthy_item_def item_text_def)
  then show "isAuthenticated s = Inr False"
    by (simp add: isAuthenticated_def truthy_def)
qed

theorem getPhoneNumber_never_throws_witness:
  \<open>getItem [str ''healthBuddieUser'' \<mapsto> str ''{"phoneNumber":'', str ''healthBuddieToken'' \<mapsto> str ''tok123'']
      (str ''healthBuddieUser'') = Some (str ''{"phoneNumber":'')
   \<and> JSON_parse (str ''{"phoneNumber":'') = Inl SyntaxError
   \<and> getPhoneNumber_try [str ''healthBuddieUser'' \<mapsto> str ''{"phoneNumber":'',
        str ''healthBuddieToken'' \<mapsto> str ''tok123''] = Inl SyntaxError
   \<and> getPhoneNumber [str ''healthBuddieUser'' \<mapsto> str ''{"phoneNumber":'',
        str ''healthBuddieToken'' \<mapsto> str ''tok123''] = Inr JNull
   \<and> isAuthenticated [str ''healthBuddieUser'' \<mapsto> str ''{"phoneNumber":'',
        str ''healthBuddieToken'' \<mapsto> str ''tok123''] = Inr False\<close>
proof -
  let ?s = \<open>[str ''healthBuddieUser'' \<mapsto> str ''{"phoneNumber":'', str ''healthBuddieToken'' \<mapsto> str ''tok123'']\<close>
  have p: \<open>JSON_parse (str ''{"phoneNumber":'') = Inl SyntaxError\<close>
    by (simp add: parse_defs)
  have g: \<open>getItem ?s (str ''healthBuddieUser'') = Some (str ''{"phoneNumber":'')\<close>
    by (simp add: getItem_def)
  have t: "getPhoneNumber_try ?s = Inl SyntaxError"
    by (simp add: getPhoneNumber_try_def g p truthy_item_def item_text_def)
  from getPhoneNumber_never_throws [of ?s] g p t show ?thesis
    by blast
qed

text \<open>
  C7. The header builder. Where the session holds an identity \<open>I\<close> and a token \<open>T\<close>, the
  headers are exactly the content type, \<^verbatim>\<open>X-Phone-Number\<close> with \<open>I\<close> itself (not encoded) and
  \<^verbatim>\<open>Authorization\<close> with \<^verbatim>\<open>Bearer\<close> followed by \<open>T\<close>; where it holds neither, the content
  type is the only header.
\<close>

theorem getHeaders_of_session:
  "(getPhoneNumber s = Inr I \<and> truthy I \<and> getToken s = Some T \<and> T \<noteq> []
      \<longrightarrow> getHeaders s =
            Inr [(str ''Content-Type'', JStr (str ''application/json'')),
                 (str ''X-Phone-Number'', I),
                 (str ''Authorization'', JStr (str ''Bearer '' @ T))])
   \<and> (getPhoneNumber s = Inr JNull \<and> \<not> truthy_item (getToken s)
      \<longrightarrow> getHeaders s = Inr [(str ''Content-Type'', JStr (str ''application/json''))])"
  by (simp add: getHeaders_def truthy_item_def item_text_def truthy_def)

theorem getHeaders_of_session_witness:
  \<open>getPhoneNumber [str ''healthBuddieUser'' \<mapsto> str ''{"phoneNumber":"+1 555 123"}'',
        str ''healthBuddieToken'' \<mapsto> str ''tok123''] = Inr (JStr (str ''+1 555 123''))
   \<and> truthy (JStr (str ''+1 555 123''))
   \<and> getToken [str ''healthBuddieUser'' \<mapsto> str ''{"phoneNumber":"+1 555 123"}'',
        str ''healthBuddieToken'' \<mapsto> str ''tok123''] = Some (str ''tok123'')
   \<and> getHeaders [str ''healthBuddieUser'' \<mapsto> str ''{"phoneNumber":"+1 555 123"}'',
        str ''healthBuddieToken'' \<mapsto> str ''tok123''] =
        Inr [(str ''Content-Type'', JStr (str ''application/json'')),
             (str ''X-Phone-Number'', JStr (str ''+1 555 123'')),
             (str ''Authorization'', JStr (str ''Bearer tok123''))]
   \<and> getPhoneNumber Map.empty = Inr JNull \<and> \<not> truthy_item (getToken Map.empty)
   \<and> getHeaders Map.empty = Inr [(str ''Content-Type'', JStr (str ''application/json''))]\<close>
proof -
  let ?s = \<open>[str ''healthBuddieUser'' \<mapsto> str ''{"phoneNumber":"+1 555 123"}'',
        str ''healthBuddieToken'' \<mapsto> str ''tok123'']\<close>
  have p: \<open>JSON_parse (str ''{"phoneNumber":"+1 555 123"}'') =
      Inr (JObj [(str ''phoneNumber'', JStr (str ''+1 555 123''))])\<close>
    by (simp add: parse_defs)
  have g: \<open>getPhoneNumber ?s = Inr (JStr (str ''+1 555 123''))\<close>
    by (simp add: getPhoneNumber_def getPhoneNumber_try_def storage_defs p get_prop_def
        or_else_def truthy_def)
  have t: "getToken ?s = Some (str ''tok123'')"
    by (simp add: getToken_def getItem_def)
  have tr: "truthy (JStr (str ''+1 555 123''))"
    by (simp add: truthy_def)
  have e: "getPhoneNumber Map.empty = Inr JNull" "\<not> truthy_item (getToken Map.empty)"
    by (simp_all add: getPhoneNumber_absent getToken_def storage_defs)
  from getHeaders_of_session [of ?s "JStr (str ''+1 555 123'')" "str ''tok123''"]
    getHeaders_of_session [of Map.empty JNull "[]"] g t tr e
  show ?thesis
    by (simp add: str_append [symmetric])
qed

subsection \<open>Requests\<close>

lemma getMessages_returns: "\<exists>v reqs. getMessages e s = (Inr v, reqs)"
  by (cases "getMessages_try e s") (auto simp: getMessages_def split: sum.split)

lemma testApiConnection_returns: "\<exists>v reqs. testApiConnection e s = (Inr v, reqs)"
  by (cases "testApiConnection_try e s") (auto simp: testApiConnection_def split: sum.split)

lemma getHealthData_returns: "\<exists>v reqs. getHealthData e days s = (Inr v, reqs)"
  by (cases "getHealthData_try e days s") (auto simp: getHealthData_def split: sum.split)

text \<open>
  C5. Without an identity, \<^verbatim>\<open>getMessages()\<close> returns exactly
  \<^verbatim>\<open>{ success: false, error: "No phone number found" }\<close> and \<^verbatim>\<open>testApiConnection()\<close> returns
  \<^verbatim>\<open>{ success: false, error }\<close> with an Error that asks to log in again, and neither issues
  a request. Both operations return a value in every case: neither ever throws.
\<close>

theorem no_identity_no_request:
  "(\<not> truthy_item (getItem s (str ''phoneNumber''))
      \<longrightarrow> getMessages e s =
            (Inr (JObj [(str ''success'', JBool False),
                        (str ''error'', JStr (str ''No phone number found''))]), []))
   \<and> (getPhoneNumber s = Inr p \<and> \<not> truthy p
      \<longrightarrow> testApiConnection e s =
            (Inr (JObj [(str ''success'', JBool False),
                        (str ''error'',
                           JError (str ''Error'')
                             (str ''No phone number available. Please log in again.''))]), []))
   \<and> (\<exists>v reqs. getMessages e s = (Inr v, reqs))
   \<and> (\<exists>v reqs. testApiConnection e s = (Inr v, reqs))"
proof (intro conjI impI)
  assume "\<not> truthy_item (getItem s (str ''phoneNumber''))"
  then show "getMessages e s =
      (Inr (JObj [(str ''success'', JBool False),
                  (str ''error'', JStr (str ''No phone number found''))]), [])"
    by (simp add: getMessages_def getMessages_try_def failure_def)
next
  assume "getPhoneNumber s = Inr p \<and> \<not> truthy p"
  then show "testApiConnection e s =
      (Inr (JObj [(str ''success'', JBool False),
                  (str ''error'',
                     JError (str ''Error'')
                       (str ''No phone number available. Please log in again.''))]), [])"
    by (simp add: testApiConnection_def testApiConnection_try_def failure_def)
next
  show "\<exists>v reqs. getMessages e s = (Inr v, reqs)"
    by (rule getMessages_returns)
  show "\<exists>v reqs. testApiConnection e s = (Inr v, reqs)"
    by (rule testApiConnection_returns)
qed

theorem no_identity_no_request_witness:
  \<open>\<not> truthy_item (getItem [str ''healthBuddieToken'' \<mapsto> str ''tok123''] (str ''phoneNumber''))
   \<and> getPhoneNumber [str ''healthBuddieToken'' \<mapsto> str ''tok123''] = Inr JNull
   \<and> \<not> truthy JNull
   \<and> getMessages (browser (answering 200 (str ''{"messages":[]}'')))
        [str ''healthBuddieToken'' \<mapsto> str ''tok123''] =
        (Inr (JObj [(str ''success'', JBool False),
                    (str ''error'', JStr (str ''No phone number found''))]), [])
   \<and> testApiConnection (browser (answering 200 (str ''{"messages":[]}'')))
        [str ''healthBuddieToken'' \<mapsto> str ''tok123''] =
        (Inr (JObj [(str ''success'', JBool False),
                    (str ''error'',
                       JError (str ''Error'')
                         (str ''No phone number available. Please log in again.''))]), [])\<close>
proof -
  let ?s = "[str ''healthBuddieToken'' \<mapsto> str ''tok123'']"
  have a: "\<not> truthy_item (getItem ?s (str ''phoneNumber''))"
    by (simp add: storage_defs)
  have b: "getPhoneNumber ?s = Inr JNull"
    by (simp add: getPhoneNumber_absent getItem_def)
  have c: "\<not> truthy JNull"
    by (simp add: truthy_def)
  from no_identity_no_request [where s = ?s and p = JNull] a b c show ?thesis
    by blast
qed

subsection \<open>Mock data\<close>

text \<open>
  C4. For a reference time \<open>today\<close>: the exercise generator yields exactly three entries,
  dated 1, 2 and 4 days before \<open>today\<close>, running for 30 minutes over 3 miles, cycling for 45
  over 10 miles, and yoga for 60 with an empty distance; the food generator yields exactly
  three entries dated 1, 2 and 3 days before, with fixed descriptions; the message
  generator yields exactly three incoming messages dated 1, 2 and 3 days before, the
  first classified as exercise, the second as food, the third without a category. In each
  sequence the dates do not increase.
\<close>

theorem mock_generators:
  "length (elements (getMockExerciseLogs today)) = 3
   \<and> dates (str ''date'') (getMockExerciseLogs today) =
       [today - 86400000, today - 172800000, today - 345600000]
   \<and> map (field (str ''type'')) (elements (getMockExerciseLogs today)) =
       [JStr (str ''running''), JStr (str ''cycling''), JStr (str ''yoga'')]
   \<and> map (field (str ''duration'')) (elements (getMockExerciseLogs today)) =
       [JNum 30, JNum 45, JNum 60]
   \<and> map (field (str ''distance'')) (elements (getMockExerciseLogs today)) =
       [JStr (str ''3 miles''), JStr (str ''10 miles''), JStr []]
   \<and> length (elements (getMockFoodLogs today)) = 3
   \<and> dates (str ''date'') (getMockFoodLogs today) =
       [today - 86400000, today - 172800000, today - 259200000]
   \<and> map (field (str ''foodItems'')) (elements (getMockFoodLogs today)) =
       [JStr (str ''Salad with grilled chicken''), JStr (str ''Oatmeal with berries and honey''),
        JStr (str ''Pasta with tomato sauce'')]
   \<and> length (elements (getMockMessages today)) = 3
   \<and> dates (str ''timestamp'') (getMockMessages today) =
       [today - 86400000, today - 172800000, today - 259200000]
   \<and> map (field (str ''type'')) (elements (getMockMessages today)) =
       [JStr (str ''incoming''), JStr (str ''incoming''), JStr (str ''incoming'')]
   \<and> map (field (str ''category'')) (elements (getMockMessages today)) =
       [JStr (str ''exercise''), JStr (str ''food''), JUndefined]
   \<and> sorted_wrt (\<lambda>a b. b \<le> a) (dates (str ''date'') (getMockExerciseLogs today))
   \<and> sorted_wrt (\<lambda>a b. b \<le> a) (dates (str ''date'') (getMockFoodLogs today))
   \<and> sorted_wrt (\<lambda>a b. b \<le> a) (dates (str ''timestamp'') (getMockMessages today))"
proof -
  have ex: "dates (str ''date'') (getMockExerciseLogs today) =
      [today - 86400000, today - 172800000, today - 345600000]"
    by (simp add: getMockExerciseLogs_def dates_def elements_def field_def day_ms_def)
  have fd: "dates (str ''date'') (getMockFoodLogs today) =
      [today - 86400000, today - 172800000, today - 259200000]"
    by (simp add: getMockFoodLogs_def dates_def elements_def field_def day_ms_def)
  have ms: "dates (str ''timestamp'') (getMockMessages today) =
      [today - 86400000, today - 172800000, today - 259200000]"
    by (simp add: getMockMessages_def dates_def elements_def field_def day_ms_def)
  have e1: "length (elements (getMockExerciseLogs today)) = 3"
    and e2: "map (field (str ''type'')) (elements (getMockExerciseLogs today)) =
       [JStr (str ''running''), JStr (str ''cycling''), JStr (str ''yoga'')]"
    and e3: "map (field (str ''duration'')) (elements (getMockExerciseLogs today)) =
       [JNum 30, JNum 45, JNum 60]"
    and e4: "map (field (str ''distance'')) (elements (getMockExerciseLogs today)) =
       [JStr (str ''3 miles''), JStr (str ''10 miles''), JStr []]"
    by (simp_all add: getMockExerciseLogs_def elements_def field_def)
  have f1: "length (elements (getMockFoodLogs today)) = 3"
    and f2: "map (field (str ''foodItems'')) (elements (getMockFoodLogs today)) =
       [JStr (str ''Salad with grilled chicken''), JStr (str ''Oatmeal with berries and honey''),
        JStr (str ''Pasta with tomato sauce'')]"
    by (simp_all add: getMockFoodLogs_def elements_def field_def)
  have m1: "length (elements (getMockMessages today)) = 3"
    and m2: "map (field (str ''type'')) (elements (getMockMessages today)) =
       [JStr (str ''incoming''), JStr (str ''incoming''), JStr (str ''incoming'')]"
    and m3: "map (field (str ''category'')) (elements (getMockMessages today)) =
       [JStr (str ''exercise''), JStr (str ''food''), JUndefined]"
    by (simp_all add: getMockMessages_def elements_def field_def)
  have s1: "sorted_wrt (\<lambda>a b. b \<le> a) (dates (str ''date'') (getMockExerciseLogs today))"
    unfolding ex by simp
  have s2: "sorted_wrt (\<lambda>a b. b \<le> a) (dates (str ''date'') (getMockFoodLogs today))"
    unfolding fd by simp
  have s3: "sorted_wrt (\<lambda>a b. b \<le> a) (dates (str ''timestamp'') (getMockMessages today))"
    unfolding ms by simp
  show ?thesis
    by (intro conjI; fact)
qed

lemma encode_digits:
  "encode (str ''15551234567'') = Inr (str ''15551234567'')"
  by (simp add: str_def unit_of_def uri_unreserved_def)

text \<open>
  C6. With an identity under the key \<^verbatim>\<open>getMessages\<close> reads, if the request it issues is
  answered by a 2xx response whose JSON body is an object with a property
  \<^verbatim>\<open>messages\<close> of value \<open>M\<close>, then \<^verbatim>\<open>getMessages()\<close> returns
  \<^verbatim>\<open>{ success: true, data: M }\<close>, with \<open>M\<close> as parsed.
\<close>

theorem getMessages_unwraps_messages:
  "truthy_item (getItem s (str ''phoneNumber''))
   \<and> req \<in> set (snd (getMessages e s)) \<and> fetch e req = Inr r \<and> ok r
   \<and> response_json r = Inr (JObj kvs) \<and> map_of kvs (str ''messages'') = Some M
   \<longrightarrow> fst (getMessages e s) = Inr (JObj [(str ''success'', JBool True), (str ''data'', M)])"
  by (auto simp: getMessages_def getMessages_try_def Let_def get_prop_def
      split: sum.splits if_splits)

theorem getMessages_unwraps_messages_witness:
  \<open>truthy_item (getItem [str ''phoneNumber'' \<mapsto> str ''15551234567''] (str ''phoneNumber''))
   \<and> snd (getMessages (browser (answering 200 (str ''{"messages":[{"id":"m1"},"x"]}'')))
        [str ''phoneNumber'' \<mapsto> str ''15551234567'']) =
       [\<lparr>url = str ''http://localhost:3000/api/api/messages?phoneNumber=15551234567'',
         http_method = str ''GET'',
         headers = [(str ''Content-Type'', JStr (str ''application/json''))]\<rparr>]
   \<and> ok \<lparr>status = 200, body = Inr (str ''{"messages":[{"id":"m1"},"x"]}'')\<rparr>
   \<and> response_json \<lparr>status = 200, body = Inr (str ''{"messages":[{"id":"m1"},"x"]}'')\<rparr> =
       Inr (JObj [(str ''messages'', JArr [JObj [(str ''id'', JStr (str ''m1''))], JStr (str ''x'')])])
   \<and> fst (getMessages (browser (answering 200 (str ''{"messages":[{"id":"m1"},"x"]}'')))
        [str ''phoneNumber'' \<mapsto> str ''15551234567'']) =
       Inr (JObj [(str ''success'', JBool True),
                  (str ''data'', JArr [JObj [(str ''id'', JStr (str ''m1''))], JStr (str ''x'')])])\<close>
proof -
  let ?s = "[str ''phoneNumber'' \<mapsto> str ''15551234567'']"
  let ?b = \<open>str ''{"messages":[{"id":"m1"},"x"]}''\<close>
  let ?e = "browser (answering 200 ?b)"
  let ?r = "\<lparr>status = 200, body = Inr ?b\<rparr>"
  let ?req = "\<lparr>url = str ''http://localhost:3000/api/api/messages?phoneNumber=15551234567'',
         http_method = str ''GET'',
         headers = [(str ''Content-Type'', JStr (str ''application/json''))]\<rparr>"
  let ?M = "JArr [JObj [(str ''id'', JStr (str ''m1''))], JStr (str ''x'')]"
  have p: "JSON_parse ?b = Inr (JObj [(str ''messages'', ?M)])"
    by (simp add: parse_defs)
  have j: "response_json ?r = Inr (JObj [(str ''messages'', ?M)])"
    by (simp add: response_json_def p)
  have k: "ok ?r"
    by (simp add: ok_def)
  have i: "truthy_item (getItem ?s (str ''phoneNumber''))"
    by (simp add: storage_defs)
  have q: "messages_request ?e ?s (str ''15551234567'') = ?req"
    by (simp add: messages_request_def API_BASE_URL_def browser_def storage_defs
        str_append [symmetric])
  have f: "fetch ?e ?req = Inr ?r"
    by (simp add: browser_def answering_def)
  have t: "snd (getMessages ?e ?s) = [?req]"
    using q f k j
    by (simp add: getMessages_def getMessages_try_def storage_defs encode_digits get_prop_def)
  have m: "?req \<in> set (snd (getMessages ?e ?s))"
    unfolding t by simp
  from getMessages_unwraps_messages
         [where s = ?s and e = ?e and req = ?req and r = ?r
            and kvs = "[(str ''messages'', ?M)]" and M = ?M] i m f k j t
  show ?thesis
    by simp
qed

text \<open>
  C10, as stated: whenever the plain phone-number key is set, \<^verbatim>\<open>getMessages()\<close> after
  \<^verbatim>\<open>logout()\<close> finds an identity and issues a request. It fails where the key is set to the
  empty string, which \<^verbatim>\<open>!phoneNumber\<close> takes for no identity, and where it is set to a
  string that \<^verbatim>\<open>encodeURIComponent\<close> rejects (an unpaired surrogate): no request is
  issued in either state.
\<close>

theorem plain_key_set_counterexample:
  \<open>getItem [str ''phoneNumber'' \<mapsto> []] (str ''phoneNumber'') = Some []
   \<and> getMessages (browser (answering 200 (str ''{"messages":[]}'')))
        (logout [str ''phoneNumber'' \<mapsto> []]) =
       (Inr (JObj [(str ''success'', JBool False),
                   (str ''error'', JStr (str ''No phone number found''))]), [])
   \<and> getItem [str ''phoneNumber'' \<mapsto> [0xD800]] (str ''phoneNumber'') = Some [0xD800]
   \<and> getMessages (browser (answering 200 (str ''{"messages":[]}'')))
        (logout [str ''phoneNumber'' \<mapsto> [0xD800]]) =
       (Inr (JObj [(str ''success'', JBool False),
                   (str ''error'', JStr (str ''Failed to get messages''))]), [])\<close>
proof -
  have a: "encode [0xD800] = Inl URIError"
    by (simp add: uri_unreserved_def is_low_def is_high_def str_def unit_of_def)
  show ?thesis
    by (simp add: getMessages_def getMessages_try_def logout_def storage_defs failure_def a
        del: encode.simps)
qed

text \<open>
  C10, amended. \<^verbatim>\<open>logout()\<close> removes only the token and the profile of the session store:
  every other key, and so the plain phone-number and the plain token that
  \<^verbatim>\<open>getMessages\<close> reads, is left as it was. Where the plain phone-number key holds a
  non-empty string that \<^verbatim>\<open>encodeURIComponent\<close> accepts, \<^verbatim>\<open>getMessages()\<close> after
  \<^verbatim>\<open>logout()\<close> issues exactly the request it would have issued before.
\<close>

theorem logout_keeps_plain_keys:
  "(k \<noteq> str ''healthBuddieToken'' \<and> k \<noteq> str ''healthBuddieUser''
      \<longrightarrow> getItem (logout s) k = getItem s k)
   \<and> getItem (logout s) (str ''phoneNumber'') = getItem s (str ''phoneNumber'')
   \<and> getItem (logout s) (str ''token'') = getItem s (str ''token'')
   \<and> (getItem s (str ''phoneNumber'') = Some p \<and> p \<noteq> [] \<and> encode p = Inr q
      \<longrightarrow> snd (getMessages e (logout s)) = [messages_request e s q]
          \<and> snd (getMessages e s) = [messages_request e s q])"
proof -
  have frame: "\<And>k. k \<noteq> str ''healthBuddieToken'' \<Longrightarrow> k \<noteq> str ''healthBuddieUser''
      \<Longrightarrow> getItem (logout s) k = getItem s k"
    by (simp add: logout_def storage_defs)
  have ph: "getItem (logout s) (str ''phoneNumber'') = getItem s (str ''phoneNumber'')"
    by (rule frame) simp_all
  have tk: "getItem (logout s) (str ''token'') = getItem s (str ''token'')"
    by (rule frame) simp_all
  have rq: "messages_request e (logout s) q = messages_request e s q"
    by (simp add: messages_request_def tk)
  have one: "\<And>s'. getItem s' (str ''phoneNumber'') = Some p \<Longrightarrow> p \<noteq> [] \<Longrightarrow> encode p = Inr q
      \<Longrightarrow> snd (getMessages e s') = [messages_request e s' q]"
    by (simp add: getMessages_def getMessages_try_def truthy_item_def item_text_def Let_def
        split: sum.split)
  show ?thesis
    using frame ph tk one [of s] one [of "logout s"] rq by auto
qed

theorem logout_keeps_plain_keys_witness:
  \<open>str ''phoneNumber'' \<noteq> str ''healthBuddieToken'' \<and> str ''phoneNumber'' \<noteq> str ''healthBuddieUser''
   \<and> getItem [str ''phoneNumber'' \<mapsto> str ''15551234567'', str ''token'' \<mapsto> str ''tok123'',
        str ''healthBuddieToken'' \<mapsto> str ''demo-token-1762167600000'']
        (str ''phoneNumber'') = Some (str ''15551234567'')
   \<and> str ''15551234567'' \<noteq> []
   \<and> encode (str ''15551234567'') = Inr (str ''15551234567'')
   \<and> snd (getMessages (browser (answering 200 (str ''{"messages":[]}'')))
        (logout [str ''phoneNumber'' \<mapsto> str ''15551234567'', str ''token'' \<mapsto> str ''tok123'',
           str ''healthBuddieToken'' \<mapsto> str ''demo-token-1762167600000''])) =
       [\<lparr>url = str ''http://localhost:3000/api/api/messages?phoneNumber=15551234567'',
         http_method = str ''GET'',
         headers = [(str ''Content-Type'', JStr (str ''application/json'')),
                    (str ''Authorization'', JStr (str ''Bearer tok123''))]\<rparr>]\<close>
proof -
  let ?s = "[str ''phoneNumber'' \<mapsto> str ''15551234567'', str ''token'' \<mapsto> str ''tok123'',
        str ''healthBuddieToken'' \<mapsto> str ''demo-token-1762167600000'']"
  let ?e = \<open>browser (answering 200 (str ''{"messages":[]}''))\<close>
  have g: "getItem ?s (str ''phoneNumber'') = Some (str ''15551234567'')"
    by (simp add: getItem_def)
  have q: "messages_request ?e ?s (str ''15551234567'') =
      \<lparr>url = str ''http://localhost:3000/api/api/messages?phoneNumber=15551234567'',
         http_method = str ''GET'',
         headers = [(str ''Content-Type'', JStr (str ''application/json'')),
                    (str ''Authorization'', JStr (str ''Bearer tok123''))]\<rparr>"
    by (simp add: messages_request_def API_BASE_URL_def browser_def storage_defs
        str_append [symmetric])
  from logout_keeps_plain_keys
         [where s = ?s and p = "str ''15551234567''" and q = "str ''15551234567''" and e = ?e
            and k = "str ''phoneNumber''"]
       g encode_digits q
  show ?thesis
    by simp
qed

lemma getHeaders_returns: "\<exists>hs. getHeaders s = Inr hs"
  using getPhoneNumber_total [of s] by (auto simp: getHeaders_def Let_def)

text \<open>
  C1, as stated: \<^verbatim>\<open>getHealthData\<close> never returns a \<^verbatim>\<open>success: false\<close> envelope. It fails
  where the server answers with status 200 and the body \<^verbatim>\<open>{"success":false}\<close>: the body of
  a 2xx response is returned as parsed, whatever it is.
\<close>

theorem getHealthData_counterexample:
  \<open>fst (getHealthData (browser (answering 200 (str ''{"success":false}''))) 7
        [str ''healthBuddieUser'' \<mapsto> str ''{"phoneNumber":"15551234567"}'',
         str ''healthBuddieToken'' \<mapsto> str ''tok123'']) =
     Inr (JObj [(str ''success'', JBool False)])\<close>
proof -
  let ?s = \<open>[str ''healthBuddieUser'' \<mapsto> str ''{"phoneNumber":"15551234567"}'',
         str ''healthBuddieToken'' \<mapsto> str ''tok123'']\<close>
  have p: \<open>JSON_parse (str ''{"phoneNumber":"15551234567"}'') =
      Inr (JObj [(str ''phoneNumber'', JStr (str ''15551234567''))])\<close>
    by (simp add: parse_defs)
  have g: \<open>getPhoneNumber ?s = Inr (JStr (str ''15551234567''))\<close>
    by (simp add: getPhoneNumber_def getPhoneNumber_try_def storage_defs p get_prop_def
        or_else_def truthy_def)
  have b: \<open>JSON_parse (str ''{"success":false}'') = Inr (JObj [(str ''success'', JBool False)])\<close>
    by (simp add: parse_defs)
  obtain hs where hs: "getHeaders ?s = Inr hs"
    using getHeaders_returns by blast
  show ?thesis
    by (simp add: getHealthData_def getHealthData_try_def g hs truthy_def encodeURIComponent_def
        encode_digits browser_def answering_def ok_def response_json_def b
        del: encode.simps)
qed

text \<open>
  C1, amended. \<^verbatim>\<open>getHealthData(days)\<close> always returns a value and never throws. It
  returns the fallback \<^verbatim>\<open>{ success: true, data: { exerciseLogs, foodLogs } }\<close>, filled by the
  two mock generators, when there is no identity (and then issues no request), when
  \<^verbatim>\<open>fetch\<close> throws, when the response is not 2xx, and when the body of a 2xx response
  cannot be read or parsed. When the body of a 2xx response parses, the parsed value is
  returned as it is.
\<close>

theorem getHealthData_fallback:
  "(getPhoneNumber s = Inr p \<and> \<not> truthy p
      \<longrightarrow> getHealthData e days s = (Inr (mock_health_data e), []))
   \<and> (req \<in> set (snd (getHealthData e days s)) \<and> fetch e req = Inl x
      \<longrightarrow> fst (getHealthData e days s) = Inr (mock_health_data e))
   \<and> (req \<in> set (snd (getHealthData e days s)) \<and> fetch e req = Inr r \<and> \<not> ok r
      \<longrightarrow> fst (getHealthData e days s) = Inr (mock_health_data e))
   \<and> (req \<in> set (snd (getHealthData e days s)) \<and> fetch e req = Inr r \<and> ok r
      \<longrightarrow> fst (getHealthData e days s) =
            (case response_json r of Inl y \<Rightarrow> Inr (mock_health_data e) | Inr v \<Rightarrow> Inr v))
   \<and> (\<exists>v. fst (getHealthData e days s) = Inr v)
   \<and> mock_health_data e =
       JObj [(str ''success'', JBool True),
             (str ''data'',
                JObj [(str ''exerciseLogs'', getMockExerciseLogs (clock e 0)),
                      (str ''foodLogs'', getMockFoodLogs (clock e 1))])]"
proof (intro conjI impI)
  assume "getPhoneNumber s = Inr p \<and> \<not> truthy p"
  then show "getHealthData e days s = (Inr (mock_health_data e), [])"
    by (simp add: getHealthData_def getHealthData_try_def)
next
  assume "req \<in> set (snd (getHealthData e days s)) \<and> fetch e req = Inl x"
  then show "fst (getHealthData e days s) = Inr (mock_health_data e)"
    by (auto simp: getHealthData_def getHealthData_try_def Let_def response_text_def
        split: sum.splits if_splits)
next
  assume "req \<in> set (snd (getHealthData e days s)) \<and> fetch e req = Inr r \<and> \<not> ok r"
  then show "fst (getHealthData e days s) = Inr (mock_health_data e)"
    by (auto simp: getHealthData_def getHealthData_try_def Let_def response_text_def
        split: sum.splits if_splits)
next
  assume "req \<in> set (snd (getHealthData e days s)) \<and> fetch e req = Inr r \<and> ok r"
  then show "fst (getHealthData e days s) =
      (case response_json r of Inl y \<Rightarrow> Inr (mock_health_data e) | Inr v \<Rightarrow> Inr v)"
    by (auto simp: getHealthData_def getHealthData_try_def Let_def response_text_def
        split: sum.splits if_splits)
next
  show "\<exists>v. fst (getHealthData e days s) = Inr v"
    using getHealthData_returns [of e days s] by auto
  show "mock_health_data e =
       JObj [(str ''success'', JBool True),
             (str ''data'',
                JObj [(str ''exerciseLogs'', getMockExerciseLogs (clock e 0)),
                      (str ''foodLogs'', getMockFoodLogs (clock e 1))])]"
    by (simp add: mock_health_data_def)
qed

lemma getPhoneNumber_example:
  \<open>getPhoneNumber [str ''healthBuddieUser'' \<mapsto> str ''{"phoneNumber":"15551234567"}'',
         str ''healthBuddieToken'' \<mapsto> str ''tok123''] = Inr (JStr (str ''15551234567''))\<close>
proof -
  have p: \<open>JSON_parse (str ''{"phoneNumber":"15551234567"}'') =
      Inr (JObj [(str ''phoneNumber'', JStr (str ''15551234567''))])\<close>
    by (simp add: parse_defs)
  show ?thesis
    by (simp add: getPhoneNumber_def getPhoneNumber_try_def storage_defs p get_prop_def
        or_else_def truthy_def)
qed

lemma getHealthData_example_trace:
  \<open>snd (getHealthData (browser net) 7
        [str ''healthBuddieUser'' \<mapsto> str ''{"phoneNumber":"15551234567"}'',
         str ''healthBuddieToken'' \<mapsto> str ''tok123'']) =
     [\<lparr>url = str ''http://localhost:3000/api/health-data?days=7&phoneNumber=15551234567'',
       http_method = str ''GET'',
       headers = [(str ''Content-Type'', JStr (str ''application/json'')),
                  (str ''X-Phone-Number'', JStr (str ''15551234567'')),
                  (str ''Authorization'', JStr (str ''Bearer tok123''))]\<rparr>]\<close>
proof -
  let ?s = \<open>[str ''healthBuddieUser'' \<mapsto> str ''{"phoneNumber":"15551234567"}'',
         str ''healthBuddieToken'' \<mapsto> str ''tok123'']\<close>
  have hs: "getHeaders ?s =
      Inr [(str ''Content-Type'', JStr (str ''application/json'')),
           (str ''X-Phone-Number'', JStr (str ''15551234567'')),
           (str ''Authorization'', JStr (str ''Bearer tok123''))]"
    by (simp add: getHeaders_def getPhoneNumber_example getToken_def storage_defs truthy_def
        str_append [symmetric])
  have u: "API_BASE_URL (browser net) @ str ''/health-data?days='' @ str (string_of_int 7)
        @ str ''&phoneNumber='' @ str ''15551234567'' =
      str ''http://localhost:3000/api/health-data?days=7&phoneNumber=15551234567''"
    by (simp add: API_BASE_URL_def browser_def storage_defs string_of_int_def
        string_of_nat.simps str_append [symmetric])
  show ?thesis
    by (simp add: getHealthData_def getHealthData_try_def getPhoneNumber_example hs truthy_def
        encodeURIComponent_def encode_digits u Let_def
        split: sum.split prod.split
        del: encode.simps)
qed

theorem getHealthData_fallback_witness:
  \<open>getPhoneNumber Map.empty = Inr JNull \<and> \<not> truthy JNull
   \<and> getHealthData (browser (answering 200 (str ''{"success":true}''))) 7 Map.empty =
       (Inr (mock_health_data (browser (answering 200 (str ''{"success":true}'')))), [])
   \<and> fst (getHealthData (browser (\<lambda>req. Inl (JError (str ''TypeError'') (str ''Failed to fetch'')))) 7
        [str ''healthBuddieUser'' \<mapsto> str ''{"phoneNumber":"15551234567"}'',
         str ''healthBuddieToken'' \<mapsto> str ''tok123'']) =
       Inr (mock_health_data (browser (\<lambda>req. Inl (JError (str ''TypeError'') (str ''Failed to fetch'')))))
   \<and> \<not> ok \<lparr>status = 500, body = Inr (str ''Internal Server Error'')\<rparr>
   \<and> fst (getHealthData (browser (answering 500 (str ''Internal Server Error''))) 7
        [str ''healthBuddieUser'' \<mapsto> str ''{"phoneNumber":"15551234567"}'',
         str ''healthBuddieToken'' \<mapsto> str ''tok123'']) =
       Inr (mock_health_data (browser (answering 500 (str ''Internal Server Error''))))
   \<and> ok \<lparr>status = 200, body = Inr (str ''{"success":true,"data":{"exerciseLogs":[],"foodLogs":[]}}'')\<rparr>
   \<and> fst (getHealthData
        (browser (answering 200 (str ''{"success":true,"data":{"exerciseLogs":[],"foodLogs":[]}}''))) 7
        [str ''healthBuddieUser'' \<mapsto> str ''{"phoneNumber":"15551234567"}'',
         str ''healthBuddieToken'' \<mapsto> str ''tok123'']) =
       Inr (JObj [(str ''success'', JBool True),
                  (str ''data'', JObj [(str ''exerciseLogs'', JArr []), (str ''foodLogs'', JArr [])])])\<close>
proof -
  let ?s = \<open>[str ''healthBuddieUser'' \<mapsto> str ''{"phoneNumber":"15551234567"}'',
         str ''healthBuddieToken'' \<mapsto> str ''tok123'']\<close>
  let ?req = "\<lparr>url = str ''http://localhost:3000/api/health-data?days=7&phoneNumber=15551234567'',
       http_method = str ''GET'',
       headers = [(str ''Content-Type'', JStr (str ''application/json'')),
                  (str ''X-Phone-Number'', JStr (str ''15551234567'')),
                  (str ''Authorization'', JStr (str ''Bearer tok123''))]\<rparr>"
  let ?down = "\<lambda>req :: request. Inl (JError (str ''TypeError'') (str ''Failed to fetch'')) :: jsval + response"
  let ?r500 = "\<lparr>status = 500, body = Inr (str ''Internal Server Error'')\<rparr>"
  let ?body = \<open>str ''{"success":true,"data":{"exerciseLogs":[],"foodLogs":[]}}''\<close>
  let ?r200 = "\<lparr>status = 200, body = Inr ?body\<rparr>"
  have mem: "\<And>net. ?req \<in> set (snd (getHealthData (browser net) 7 ?s))"
    by (simp only: getHealthData_example_trace) simp
  have none: "getPhoneNumber Map.empty = Inr JNull" "\<not> truthy JNull"
    by (simp_all add: getPhoneNumber_absent getItem_def truthy_def)
  have f1: "fetch (browser ?down) ?req = Inl (JError (str ''TypeError'') (str ''Failed to fetch''))"
    by (simp add: browser_def)
  have f2: "fetch (browser (answering 500 (str ''Internal Server Error''))) ?req = Inr ?r500"
    by (simp add: browser_def answering_def)
  have f3: "fetch (browser (answering 200 ?body)) ?req = Inr ?r200"
    by (simp add: browser_def answering_def)
  have k2: "\<not> ok ?r500" and k3: "ok ?r200"
    by (simp_all add: ok_def)
  have p: "JSON_parse ?body =
      Inr (JObj [(str ''success'', JBool True),
                 (str ''data'', JObj [(str ''exerciseLogs'', JArr []), (str ''foodLogs'', JArr [])])])"
    by (simp add: parse_defs)
  have j: "response_json ?r200 =
      Inr (JObj [(str ''success'', JBool True),
                 (str ''data'', JObj [(str ''exerciseLogs'', JArr []), (str ''foodLogs'', JArr [])])])"
    by (simp add: response_json_def p)
  from getHealthData_fallback
         [where s = Map.empty and p = JNull and days = 7
            and e = \<open>browser (answering 200 (str ''{"success":true}''))\<close>]
       getHealthData_fallback
         [where s = ?s and days = 7 and e = "browser ?down" and req = ?req
            and x = "JError (str ''TypeError'') (str ''Failed to fetch'')"]
       getHealthData_fallback
         [where s = ?s and days = 7 and e = "browser (answering 500 (str ''Internal Server Error''))"
            and req = ?req and r = ?r500]
       getHealthData_fallback
         [where s = ?s and days = 7 and e = "browser (answering 200 ?body)"
            and req = ?req and r = ?r200]
       none mem f1 f2 f3 k2 k3 j
  show ?thesis
    by simp
qed

subsection \<open>JSON.parse after JSON.stringify\<close>

lemma upt16: "[0..<16] = [0, 1, 2, 3, 4, 5, 6, 7, 8, 9, 10, 11, 12, 13, 14, 15]"
  by (simp add: upt_rec)

lemma hex_val_hexdigit: "d < 16 \<Longrightarrow> hex_val (hexdigit d) = Some d"
proof -
  assume "d < 16"
  then have "d \<in> set [0..<16]" by simp
  then show ?thesis
    unfolding upt16
    by (auto simp: hex_val_def hexdigit_def str_def unit_of_def)
qed

lemma hex_digits_nat:
  fixes n :: nat
  shows "((n div 4096 * 16 + n div 256 mod 16) * 16 + n div 16 mod 16) * 16 + n mod 16 = n"
proof -
  have a: "n div 4096 = n div 256 div 16" by (simp add: div_mult2_eq)
  have b: "n div 256 = n div 16 div 16" by (simp add: div_mult2_eq)
  have "n div 4096 * 16 + n div 256 mod 16 = n div 256"
    unfolding a by simp
  moreover have "n div 256 * 16 + n div 16 mod 16 = n div 16"
    unfolding b by simp
  ultimately show ?thesis by simp
qed

lemma run_hex4:
  assumes "d1 < 16" "d2 < 16" "d3 < 16" "d4 < 16"
  shows "foldl step (LStr acc, st) [0x5C, 0x75, hexdigit d1, hexdigit d2, hexdigit d3, hexdigit d4]
         = (LStr (acc @ [of_nat (((d1 * 16 + d2) * 16 + d3) * 16 + d4)]), st)"
  using assms by (simp add: hex_val_hexdigit del: of_nat_add of_nat_mult)

lemma run_UnicodeEscape:
  "foldl step (LStr acc, st) (UnicodeEscape c) = (LStr (acc @ [c]), st)"
proof -
  have "unat c < 65536"
    using unsigned_less[of c, where 'a = nat] by simp
  then have lt: "unat c div 4096 < 16" by simp
  have "foldl step (LStr acc, st) (UnicodeEscape c) =
      (LStr (acc @ [of_nat (((unat c div 4096 * 16 + unat c div 256 mod 16) * 16
          + unat c div 16 mod 16) * 16 + unat c mod 16)]), st)"
    unfolding UnicodeEscape_def by (rule run_hex4 [OF lt]) simp_all
  then show ?thesis
    by (simp only: hex_digits_nat) simp
qed

lemma run_short_escapes:
  "foldl step (LStr acc, st) [0x5C, 0x62] = (LStr (acc @ [0x08]), st)"
  "foldl step (LStr acc, st) [0x5C, 0x74] = (LStr (acc @ [0x09]), st)"
  "foldl step (LStr acc, st) [0x5C, 0x6E] = (LStr (acc @ [0x0A]), st)"
  "foldl step (LStr acc, st) [0x5C, 0x66] = (LStr (acc @ [0x0C]), st)"
  "foldl step (LStr acc, st) [0x5C, 0x72] = (LStr (acc @ [0x0D]), st)"
  "foldl step (LStr acc, st) [0x5C, 0x22] = (LStr (acc @ [0x22]), st)"
  "foldl step (LStr acc, st) [0x5C, 0x5C] = (LStr (acc @ [0x5C]), st)"
  by simp_all

lemma step_plain:
  "c \<noteq> 0x22 \<Longrightarrow> c \<noteq> 0x5C \<Longrightarrow> \<not> c < 0x20 \<Longrightarrow> step (LStr acc, st) c = (LStr (acc @ [c]), st)"
  by simp

lemma surrogate_plain:
  assumes "is_high c \<or> is_low c"
  shows "c \<noteq> 0x22" "c \<noteq> 0x5C" "\<not> c < 0x20"
  using assms by (auto simp: is_high_def is_low_def word_le_nat_alt word_less_nat_alt)

text \<open>Inside a string, the parser reads the escaped form of \<open>s\<close> back as \<open>s\<close>.\<close>

lemma run_esc: "foldl step (LStr acc, st) (esc s) = (LStr (acc @ s), st)"
proof (induction s arbitrary: acc rule: length_induct)
  case (1 s)
  show ?case
  proof (cases s)
    case Nil
    then show ?thesis by simp
  next
    case (Cons c cs)
    have tail: "\<And>a. foldl step (LStr a, st) (esc cs) = (LStr (a @ cs), st)"
      using 1 Cons by simp
    consider (short) "c = 0x08 \<or> c = 0x09 \<or> c = 0x0A \<or> c = 0x0C \<or> c = 0x0D \<or> c = 0x22 \<or> c = 0x5C"
      | (ctl) "\<not> (c = 0x08 \<or> c = 0x09 \<or> c = 0x0A \<or> c = 0x0C \<or> c = 0x0D \<or> c = 0x22 \<or> c = 0x5C)"
          "c < 0x20"
      | (pair) d ds where
          "\<not> (c = 0x08 \<or> c = 0x09 \<or> c = 0x0A \<or> c = 0x0C \<or> c = 0x0D \<or> c = 0x22 \<or> c = 0x5C)"
          "\<not> c < 0x20" "is_high c" "cs = d # ds" "is_low d"
      | (lone) "\<not> (c = 0x08 \<or> c = 0x09 \<or> c = 0x0A \<or> c = 0x0C \<or> c = 0x0D \<or> c = 0x22 \<or> c = 0x5C)"
          "\<not> c < 0x20" "esc (c # cs) = UnicodeEscape c @ esc cs"
      | (plain) "\<not> (c = 0x08 \<or> c = 0x09 \<or> c = 0x0A \<or> c = 0x0C \<or> c = 0x0D \<or> c = 0x22 \<or> c = 0x5C)"
          "\<not> c < 0x20" "\<not> is_high c" "\<not> is_low c"
    proof (cases "c = 0x08 \<or> c = 0x09 \<or> c = 0x0A \<or> c = 0x0C \<or> c = 0x0D \<or> c = 0x22 \<or> c = 0x5C")
      case True
      then show ?thesis by (rule short)
    next
      case ns: False
      show ?thesis
      proof (cases "c < 0x20")
        case True
        with ns show ?thesis by (rule ctl)
      next
        case nc: False
        show ?thesis
        proof (cases "is_high c")
          case hi: True
          show ?thesis
          proof (cases cs)
            case Nil
            have "esc (c # cs) = UnicodeEscape c @ esc cs"
              using ns nc hi Nil by simp
            with ns nc show ?thesis by (rule lone)
          next
            case (Cons d ds)
            show ?thesis
            proof (cases "is_low d")
              case True
              with ns nc hi Cons show ?thesis by (rule pair)
            next
              case False
              have "esc (c # cs) = UnicodeEscape c @ esc cs"
                using ns nc hi Cons False by simp
              with ns nc show ?thesis by (rule lone)
            qed
          qed
        next
          case nh: False
          show ?thesis
          proof (cases "is_low c")
            case True
            have "esc (c # cs) = UnicodeEscape c @ esc cs"
              using ns nc nh True by simp
            with ns nc show ?thesis by (rule lone)
          next
            case False
            with ns nc nh show ?thesis by (rule plain)
          qed
        qed
      qed
    qed
    then show ?thesis
    proof cases
      case short
      then show ?thesis
        unfolding Cons
        by (elim disjE) (simp_all only: esc.simps if_True if_False foldl_append
            run_short_escapes tail append_assoc append_Cons append_Nil, simp_all add: tail)
    next
      case ctl
      then have "esc (c # cs) = UnicodeEscape c @ esc cs" by simp
      then show ?thesis
        unfolding Cons by (simp only: foldl_append run_UnicodeEscape tail) simp
    next
      case pair
      have d: "d \<noteq> 0x22" "d \<noteq> 0x5C" "\<not> d < 0x20"
        using surrogate_plain [of d] pair by auto
      have c: "c \<noteq> 0x22" "c \<noteq> 0x5C"
        using pair by auto
      have e: "esc (c # cs) = c # d # esc ds"
        using pair by simp
      have t: "\<And>a. foldl step (LStr a, st) (esc ds) = (LStr (a @ ds), st)"
        using 1 Cons pair by simp
      show ?thesis
        unfolding Cons e
        by (simp only: foldl_Cons step_plain [OF c pair(2)] step_plain [OF d] t pair(4)) simp
    next
      case lone
      show ?thesis
        unfolding Cons lone(3) by (simp only: foldl_append run_UnicodeEscape tail) simp
    next
      case plain
      have c: "c \<noteq> 0x22" "c \<noteq> 0x5C"
        using plain by auto
      have e: "esc (c # cs) = c # esc cs"
        using plain by simp
      show ?thesis
        unfolding Cons e
        by (simp only: foldl_Cons step_plain [OF c plain(2)] tail) simp
    qed
  qed
qed

lemma run_quoted:
  "foldl step (LStr [], st) (esc s @ [0x22]) = end_string s st"
  by (simp add: run_esc)

lemma run_string_member:
  assumes "l = LKey \<or> l = LKeyOrEnd"
  shows "foldl step (l, FObj kvs # r) (QuoteJSONString k @ 0x3A # QuoteJSONString v)
         = (LAfter, FObj (AList.update k (JStr v) kvs) # r)"
proof -
  have open_key: "step (l, FObj kvs # r) 0x22 = (LStr [], FObj kvs # r)"
    using assms by (auto simp: is_ws_def)
  have key: "foldl step (l, FObj kvs # r) (QuoteJSONString k) = (LColon, FKey kvs k # r)"
    unfolding QuoteJSONString_def
    by (simp only: foldl_Cons open_key run_quoted) (simp add: end_string_def)
  have colon: "step (LColon, FKey kvs k # r) 0x3A = (LVal, FKey kvs k # r)"
    by (simp add: is_ws_def)
  have open_val: "step (LVal, FKey kvs k # r) 0x22 = (LStr [], FKey kvs k # r)"
    by (simp add: is_ws_def start_value_def)
  have val: "foldl step (LVal, FKey kvs k # r) (QuoteJSONString v)
      = (LAfter, FObj (AList.update k (JStr v) kvs) # r)"
    unfolding QuoteJSONString_def
    by (simp only: foldl_Cons open_val run_quoted) (simp add: end_string_def emit_def)
  show ?thesis
    by (simp only: foldl_append foldl_Cons key colon val)
qed

lemma run_true_member:
  "foldl step (LKey, FObj kvs # r) (QuoteJSONString k @ 0x3A # str ''true'')
   = (LAfter, FObj (AList.update k (JBool True) kvs) # r)"
proof -
  have open_key: "step (LKey, FObj kvs # r) 0x22 = (LStr [], FObj kvs # r)"
    by (simp add: is_ws_def)
  have key: "foldl step (LKey, FObj kvs # r) (QuoteJSONString k) = (LColon, FKey kvs k # r)"
    unfolding QuoteJSONString_def
    by (simp only: foldl_Cons open_key run_quoted) (simp add: end_string_def)
  have rest: "foldl step (LColon, FKey kvs k # r) (0x3A # str ''true'')
      = (LAfter, FObj (AList.update k (JBool True) kvs) # r)"
    by (simp add: is_ws_def start_value_def emit_def str_def unit_of_def)
  show ?thesis
    by (simp only: foldl_append key rest)
qed

lemma run_string_member_then:
  "foldl step (LKey, FObj kvs # r) ((QuoteJSONString k @ 0x3A # QuoteJSONString v) @ zs)
   = foldl step (LAfter, FObj (AList.update k (JStr v) kvs) # r) zs"
  "foldl step (LKeyOrEnd, FObj kvs # r) ((QuoteJSONString k @ 0x3A # QuoteJSONString v) @ zs)
   = foldl step (LAfter, FObj (AList.update k (JStr v) kvs) # r) zs"
  by (simp_all only: foldl_append [of _ _ "QuoteJSONString k @ 0x3A # QuoteJSONString v"]
      run_string_member simp_thms)

lemma run_true_member_then:
  "foldl step (LKey, FObj kvs # r) ((QuoteJSONString k @ 0x3A # str ''true'') @ zs)
   = foldl step (LAfter, FObj (AList.update k (JBool True) kvs) # r) zs"
  by (simp only: foldl_append [of _ _ "QuoteJSONString k @ 0x3A # str ''true''"] run_true_member)

lemma step_comma: "step (LAfter, FObj kvs # r) 0x2C = (LKey, FObj kvs # r)"
  by (simp add: after_value_def is_ws_def)

lemma step_close: "step (LAfter, [FObj kvs]) 0x7D = (LDone (JObj kvs), [])"
  by (simp add: after_value_def is_ws_def emit_def)

lemma step_open: "step (LVal, []) 0x7B = (LKeyOrEnd, [FObj []])"
  by (simp add: is_ws_def start_value_def)

lemma stringify_new_user: "JSON_stringify e (new_user e P) = Some (user_text e P)"
  by (simp add: JSON_stringify_def new_user_def user_text_def)

lemma parse_user_text:
  "JSON_parse (user_text e P) =
     Inr (JObj [(str ''id'', JStr (str ''user-'' @ str (string_of_int (clock e 0)))),
                (str ''phoneNumber'', JStr P),
                (str ''createdAt'', JStr (Date_toISOString e (clock e 1))),
                (str ''lastActive'', JStr (Date_toISOString e (clock e 2))),
                (str ''verified'', JBool True)])"
proof -
  have "foldl step (LVal, []) (user_text e P) =
      (LDone (JObj (AList.update (str ''verified'') (JBool True)
         (AList.update (str ''lastActive'') (JStr (Date_toISOString e (clock e 2)))
         (AList.update (str ''createdAt'') (JStr (Date_toISOString e (clock e 1)))
         (AList.update (str ''phoneNumber'') (JStr P)
         (AList.update (str ''id'') (JStr (str ''user-'' @ str (string_of_int (clock e 0))))
            [])))))), [])"
    unfolding user_text_def
    by (simp only: foldl_Cons foldl_Nil step_open run_string_member_then run_true_member_then
        step_comma step_close)
  then show ?thesis
    by (simp add: JSON_parse_def finish_def)
qed

lemma user_text_nonempty: "user_text e P \<noteq> []"
  by (simp add: user_text_def)

text \<open>What a successful \<^verbatim>\<open>login\<close> leaves in storage, and what it returns.\<close>

lemma login_success:
  assumes "login e P s = (Inr result, s')"
  shows "s' = s(str ''healthBuddieUser'' \<mapsto> user_text e P,
                str ''healthBuddieToken'' \<mapsto> str ''demo-token-'' @ str (string_of_int (clock e 3)))"
    and "result = JObj [(str ''success'', JBool True), (str ''user'', new_user e P)]"
  using assms
  by (auto simp: login_def setItem_def stringify_new_user Let_def split: if_splits)

lemma login_identity:
  assumes "login e P s = (Inr result, s')"
  shows "getPhoneNumber s' = Inr (or_else (JStr P) JNull)"
    and "getToken s' = Some (str ''demo-token-'' @ str (string_of_int (clock e 3)))"
    and "getItem s' (str ''healthBuddieUser'') = Some (user_text e P)"
    and "getItem s' (str ''phoneNumber'') = getItem s (str ''phoneNumber'')"
proof -
  note s' = login_success(1) [OF assms]
  show u: "getItem s' (str ''healthBuddieUser'') = Some (user_text e P)"
    by (simp add: s' getItem_def)
  show "getToken s' = Some (str ''demo-token-'' @ str (string_of_int (clock e 3)))"
    by (simp add: s' getToken_def getItem_def)
  show "getItem s' (str ''phoneNumber'') = getItem s (str ''phoneNumber'')"
    by (simp add: s' getItem_def)
  show "getPhoneNumber s' = Inr (or_else (JStr P) JNull)"
    by (simp add: getPhoneNumber_def getPhoneNumber_try_def u truthy_item_def item_text_def
        user_text_nonempty parse_user_text get_prop_def)
qed

text \<open>
  C2. For every non-empty phone number \<open>P\<close>, after \<^verbatim>\<open>login(P)\<close> has succeeded:
  \<^verbatim>\<open>isAuthenticated()\<close> returns true; the stored profile parses to an object whose
  \<^verbatim>\<open>phoneNumber\<close> is \<open>P\<close>, whose \<^verbatim>\<open>verified\<close> is true and whose \<^verbatim>\<open>id\<close> is \<^verbatim>\<open>user-\<close> followed by
  the time \<^verbatim>\<open>Date.now()\<close> returned; and \<^verbatim>\<open>login\<close> returned \<^verbatim>\<open>{ success: true, user }\<close> with
  that profile.
\<close>

theorem login_authenticates:
  "P \<noteq> [] \<and> login e P s = (Inr result, s')
   \<longrightarrow> isAuthenticated s' = Inr True
     \<and> getPhoneNumber s' = Inr (JStr P)
     \<and> (\<exists>stored. getItem s' (str ''healthBuddieUser'') = Some stored
          \<and> JSON_parse stored =
              Inr (JObj [(str ''id'', JStr (str ''user-'' @ str (string_of_int (clock e 0)))),
                         (str ''phoneNumber'', JStr P),
                         (str ''createdAt'', JStr (Date_toISOString e (clock e 1))),
                         (str ''lastActive'', JStr (Date_toISOString e (clock e 2))),
                         (str ''verified'', JBool True)]))
     \<and> result =
         JObj [(str ''success'', JBool True),
               (str ''user'',
                  JObj [(str ''id'', JStr (str ''user-'' @ str (string_of_int (clock e 0)))),
                        (str ''phoneNumber'', JStr P),
                        (str ''createdAt'', JDate (clock e 1)),
                        (str ''lastActive'', JDate (clock e 2)),
                        (str ''verified'', JBool True)])]"
proof (intro impI)
  assume a: "P \<noteq> [] \<and> login e P s = (Inr result, s')"
  then have l: "login e P s = (Inr result, s')" and P: "P \<noteq> []"
    by simp_all
  have g: "getPhoneNumber s' = Inr (JStr P)"
    using login_identity(1) [OF l] P by (simp add: or_else_def truthy_def)
  have t: "truthy_item (getToken s')"
    using login_identity(2) [OF l] by (simp add: truthy_item_def)
  have auth: "isAuthenticated s' = Inr True"
    using g t P by (simp add: isAuthenticated_def truthy_def)
  have stored: "\<exists>stored. getItem s' (str ''healthBuddieUser'') = Some stored
          \<and> JSON_parse stored =
              Inr (JObj [(str ''id'', JStr (str ''user-'' @ str (string_of_int (clock e 0)))),
                         (str ''phoneNumber'', JStr P),
                         (str ''createdAt'', JStr (Date_toISOString e (clock e 1))),
                         (str ''lastActive'', JStr (Date_toISOString e (clock e 2))),
                         (str ''verified'', JBool True)])"
    using login_identity(3) [OF l] parse_user_text [of e P] by simp
  have res: "result =
         JObj [(str ''success'', JBool True),
               (str ''user'',
                  JObj [(str ''id'', JStr (str ''user-'' @ str (string_of_int (clock e 0)))),
                        (str ''phoneNumber'', JStr P),
                        (str ''createdAt'', JDate (clock e 1)),
                        (str ''lastActive'', JDate (clock e 2)),
                        (str ''verified'', JBool True)])]"
    using login_success(2) [OF l] by (simp add: new_user_def)
  from auth g stored res
  show "isAuthenticated s' = Inr True
     \<and> getPhoneNumber s' = Inr (JStr P)
     \<and> (\<exists>stored. getItem s' (str ''healthBuddieUser'') = Some stored
          \<and> JSON_parse stored =
              Inr (JObj [(str ''id'', JStr (str ''user-'' @ str (string_of_int (clock e 0)))),
                         (str ''phoneNumber'', JStr P),
                         (str ''createdAt'', JStr (Date_toISOString e (clock e 1))),
                         (str ''lastActive'', JStr (Date_toISOString e (clock e 2))),
                         (str ''verified'', JBool True)]))
     \<and> result =
         JObj [(str ''success'', JBool True),
               (str ''user'',
                  JObj [(str ''id'', JStr (str ''user-'' @ str (string_of_int (clock e 0)))),
                        (str ''phoneNumber'', JStr P),
                        (str ''createdAt'', JDate (clock e 1)),
                        (str ''lastActive'', JDate (clock e 2)),
                        (str ''verified'', JBool True)])]"
    by blast
qed

lemma login_browser:
  "login (browser net) P s =
     (Inr (JObj [(str ''success'', JBool True), (str ''user'', new_user (browser net) P)]),
      s(str ''healthBuddieUser'' \<mapsto> user_text (browser net) P,
        str ''healthBuddieToken'' \<mapsto> str ''demo-token-1762167600000''))"
  by (simp add: login_def setItem_def stringify_new_user browser_def string_of_int_def
      string_of_nat.simps str_append [symmetric])

theorem login_authenticates_witness:
  \<open>str ''15551234567'' \<noteq> []
   \<and> fst (login (browser (answering 200 (str ''{}''))) (str ''15551234567'') Map.empty) =
       Inr (JObj [(str ''success'', JBool True),
                  (str ''user'',
                     JObj [(str ''id'', JStr (str ''user-1762167600000'')),
                           (str ''phoneNumber'', JStr (str ''15551234567'')),
                           (str ''createdAt'', JDate 1762167600000),
                           (str ''lastActive'', JDate 1762167600000),
                           (str ''verified'', JBool True)])])
   \<and> isAuthenticated (snd (login (browser (answering 200 (str ''{}''))) (str ''15551234567'') Map.empty))
       = Inr True
   \<and> getPhoneNumber (snd (login (browser (answering 200 (str ''{}''))) (str ''15551234567'') Map.empty))
       = Inr (JStr (str ''15551234567''))\<close>
proof -
  let ?e = \<open>browser (answering 200 (str ''{}''))\<close>
  let ?P = "str ''15551234567''"
  obtain result s' where l: "login ?e ?P Map.empty = (Inr result, s')"
    using login_browser [of "answering 200 (str ''{}'')" ?P Map.empty] by blast
  have P: "?P \<noteq> []" by simp
  have c: "clock ?e 0 = 1762167600000" "clock ?e 1 = 1762167600000" "clock ?e 2 = 1762167600000"
    by (simp_all add: browser_def)
  have n: "str ''user-'' @ str (string_of_int 1762167600000) = str ''user-1762167600000''"
    by (simp add: string_of_int_def string_of_nat.simps str_append [symmetric])
  from login_authenticates [where P = ?P and e = ?e and s = Map.empty and result = result and s' = s']
    P l c n
  show ?thesis
    by simp
qed

text \<open>
  C3, as stated: in every storage state produced by \<^verbatim>\<open>login(P)\<close> alone,
  \<^verbatim>\<open>isAuthenticated()\<close> returns true. It fails for the empty string: \<^verbatim>\<open>login("")\<close>
  succeeds and stores a profile whose \<^verbatim>\<open>phoneNumber\<close> is empty, which
  \<^verbatim>\<open>user.phoneNumber || null\<close> turns into no identity.
\<close>

theorem login_empty_counterexample:
  \<open>fst (login (browser (answering 200 (str ''{}''))) [] Map.empty) =
     Inr (JObj [(str ''success'', JBool True),
                (str ''user'', new_user (browser (answering 200 (str ''{}''))) [])])
   \<and> isAuthenticated (snd (login (browser (answering 200 (str ''{}''))) [] Map.empty)) = Inr False\<close>
proof -
  let ?e = \<open>browser (answering 200 (str ''{}''))\<close>
  obtain result s' where l: "login ?e [] Map.empty = (Inr result, s')"
    using login_browser [of "answering 200 (str ''{}'')" "[]" Map.empty] by blast
  have "getPhoneNumber s' = Inr JNull"
    using login_identity(1) [OF l] by (simp add: or_else_def truthy_def)
  then have "isAuthenticated s' = Inr False"
    by (simp add: isAuthenticated_def truthy_def)
  then show ?thesis
    using l login_success(2) [OF l] by simp
qed

text \<open>
  C3, amended. \<^verbatim>\<open>getMessages\<close> reads its identity from the plain key
  \<^verbatim>\<open>phoneNumber\<close>, which is neither of the two keys \<^verbatim>\<open>login\<close> writes, and \<^verbatim>\<open>login\<close> leaves
  that key as it was. So in every storage state that a successful \<^verbatim>\<open>login(P)\<close> produces
  from a state with no plain phone-number value, \<^verbatim>\<open>getMessages()\<close> returns
  \<^verbatim>\<open>{ success: false, error: "No phone number found" }\<close> without a request, while for
  every non-empty \<open>P\<close> \<^verbatim>\<open>isAuthenticated()\<close> returns true.
\<close>

theorem login_leaves_getMessages_without_identity:
  "str ''phoneNumber'' \<noteq> str ''healthBuddieUser'' \<and> str ''phoneNumber'' \<noteq> str ''healthBuddieToken''
   \<and> (login e P s = (Inr result, s')
        \<longrightarrow> getItem s' (str ''phoneNumber'') = getItem s (str ''phoneNumber''))
   \<and> (\<not> truthy_item (getItem s (str ''phoneNumber'')) \<and> login e P s = (Inr result, s')
        \<longrightarrow> getMessages eb s' =
              (Inr (JObj [(str ''success'', JBool False),
                          (str ''error'', JStr (str ''No phone number found''))]), [])
            \<and> (P \<noteq> [] \<longrightarrow> isAuthenticated s' = Inr True))"
proof (intro conjI impI)
  show "str ''phoneNumber'' \<noteq> str ''healthBuddieUser''"
    and "str ''phoneNumber'' \<noteq> str ''healthBuddieToken''"
    by simp_all
next
  assume "login e P s = (Inr result, s')"
  then show "getItem s' (str ''phoneNumber'') = getItem s (str ''phoneNumber'')"
    by (rule login_identity(4))
next
  assume a: "\<not> truthy_item (getItem s (str ''phoneNumber'')) \<and> login e P s = (Inr result, s')"
  then have l: "login e P s = (Inr result, s')"
    by simp
  have "\<not> truthy_item (getItem s' (str ''phoneNumber''))"
    using a login_identity(4) [OF l] by simp
  then show "getMessages eb s' =
      (Inr (JObj [(str ''success'', JBool False),
                  (str ''error'', JStr (str ''No phone number found''))]), [])"
    by (simp add: getMessages_def getMessages_try_def failure_def)
next
  assume a: "\<not> truthy_item (getItem s (str ''phoneNumber'')) \<and> login e P s = (Inr result, s')"
    and P: "P \<noteq> []"
  then have l: "login e P s = (Inr result, s')"
    by simp
  have g: "getPhoneNumber s' = Inr (JStr P)"
    using login_identity(1) [OF l] P by (simp add: or_else_def truthy_def)
  have t: "truthy_item (getToken s')"
    using login_identity(2) [OF l] by (simp add: truthy_item_def)
  show "isAuthenticated s' = Inr True"
    using g t P by (simp add: isAuthenticated_def truthy_def)
qed

theorem login_leaves_getMessages_without_identity_witness:
  \<open>\<not> truthy_item (getItem Map.empty (str ''phoneNumber''))
   \<and> fst (login (browser (answering 200 (str ''{"messages":[]}''))) (str ''15551234567'') Map.empty) =
       Inr (JObj [(str ''success'', JBool True),
                  (str ''user'',
                     new_user (browser (answering 200 (str ''{"messages":[]}''))) (str ''15551234567''))])
   \<and> str ''15551234567'' \<noteq> []
   \<and> getMessages (browser (answering 200 (str ''{"messages":[]}'')))
        (snd (login (browser (answering 200 (str ''{"messages":[]}''))) (str ''15551234567'') Map.empty)) =
       (Inr (JObj [(str ''success'', JBool False),
                   (str ''error'', JStr (str ''No phone number found''))]), [])
   \<and> isAuthenticated
        (snd (login (browser (answering 200 (str ''{"messages":[]}''))) (str ''15551234567'') Map.empty)) =
       Inr True\<close>
proof -
  let ?e = \<open>browser (answering 200 (str ''{"messages":[]}''))\<close>
  let ?P = "str ''15551234567''"
  obtain result s' where l: "login ?e ?P Map.empty = (Inr result, s')"
    using login_browser [of \<open>answering 200 (str ''{"messages":[]}'')\<close> ?P Map.empty] by blast
  have r: "result = JObj [(str ''success'', JBool True), (str ''user'', new_user ?e ?P)]"
    by (rule login_success(2) [OF l])
  have n: "\<not> truthy_item (getItem Map.empty (str ''phoneNumber''))"
    by (simp add: storage_defs)
  have P: "?P \<noteq> []" by simp
  from login_leaves_getMessages_without_identity
         [where e = ?e and P = ?P and s = Map.empty and result = result and s' = s' and eb = ?e]
       l r n P
  show ?thesis
    by simp
qed

end
